theory Spec2Isabelle
  imports Complex_Main
begin

section \<open>Photo Sphere Viewer: coordinate conversions, range solver, markers, loading\<close>

text \<open>
  The development follows the ES6 sources of the viewer: \<open>PSVDataHelper\<close> (converters and
  the range solver), \<open>PSVMarker\<close> (marker entities), \<open>PSVHUD\<close> (the per-frame marker
  pass) and \<open>PhotoSphereViewer.setPanorama\<close>.

  JavaScript numbers are modelled as real numbers: every arithmetic operation is the exact
  one, there is no NaN and no rounding error. \<open>Math.round\<close> is the only rounding the
  sources perform, and it is modelled as such. A division by zero, which yields an infinity
  or NaN in the sources, has no meaning here: the theorems about computed values carry the
  hypotheses that keep every divisor away from zero.
\<close>

subsection \<open>Errors\<close>

text \<open>
  \<open>PSVError\<close> is the only error class the sources throw themselves; \<open>TypeError\<close> is what
  the JavaScript runtime throws when a property of \<open>undefined\<close> or \<open>null\<close> is read.
  \<open>OutsideModel\<close> is not an error of the program: it marks the one place where the
  program goes on computing with NaN and the model stops.
\<close>

datatype error = PSVError string | TypeError | OutsideModel

subsection \<open>JavaScript built-ins\<close>

text \<open>\<open>Math.round\<close> rounds to the nearest integer, halves towards plus infinity.\<close>

definition Math_round :: "real \<Rightarrow> real" where
  "Math_round x = of_int \<lfloor>x + 1 / 2\<rfloor>"

text \<open>\<open>THREE.Math.degToRad\<close> and \<open>THREE.Math.radToDeg\<close>.\<close>

definition degToRad :: "real \<Rightarrow> real" where
  "degToRad d = d * pi / 180"

definition radToDeg :: "real \<Rightarrow> real" where
  "radToDeg r = r * 180 / pi"

subsection \<open>Viewer configuration and properties read by the data helper\<close>

record psv_config =
  minFov :: real
  maxFov :: real
  longitudeRange :: "(real \<times> real) option"
  latitudeRange :: "(real \<times> real) option"

record panoData =
  fullWidth :: real
  fullHeight :: real
  croppedWidth :: real
  croppedHeight :: real
  croppedX :: real
  croppedY :: real

record psv_prop =
  isCubemap :: bool
  pano :: panoData
  vFov :: real
  hFov :: real

record position =
  longitude :: real
  latitude :: real

record point =
  px :: real
  py :: real

subsection \<open>Zoom level and field of view\<close>

definition fovToZoomLevel :: "'a psv_config_scheme \<Rightarrow> real \<Rightarrow> real" where
  "fovToZoomLevel config fov =
     (let temp = Math_round ((fov - minFov config) / (maxFov config - minFov config) * 100)
      in temp - 2 * (temp - 50))"

definition zoomLevelToFov :: "'a psv_config_scheme \<Rightarrow> real \<Rightarrow> real" where
  "zoomLevelToFov config level =
     maxFov config + (level / 100) * (minFov config - maxFov config)"

subsection \<open>Texture coordinates and spherical coordinates\<close>

definition textureCoordsToSphericalCoords :: "'a psv_prop_scheme \<Rightarrow> point \<Rightarrow> error + position" where
  "textureCoordsToSphericalCoords prop p =
     (if isCubemap prop then Inl (PSVError ''Unable to use texture coords with cubemap.'')
      else
        let panoData = pano prop;
            relativeX = (px p + croppedX panoData) / fullWidth panoData * pi * 2;
            relativeY = (py p + croppedY panoData) / fullHeight panoData * pi
        in Inr \<lparr> longitude = (if relativeX \<ge> pi then relativeX - pi else relativeX + pi),
                 latitude = pi / 2 - relativeY \<rparr>)"

definition sphericalCoordsToTextureCoords :: "'a psv_prop_scheme \<Rightarrow> position \<Rightarrow> error + point" where
  "sphericalCoordsToTextureCoords prop pos =
     (if isCubemap prop then Inl (PSVError ''Unable to use texture coords with cubemap.'')
      else
        let panoData = pano prop;
            relativeLong = longitude pos / pi / 2 * fullWidth panoData;
            relativeLat = latitude pos / pi * fullHeight panoData
        in Inr \<lparr> px = Math_round (if longitude pos < pi
                                     then relativeLong + fullWidth panoData / 2
                                     else relativeLong - fullWidth panoData / 2)
                        - croppedX panoData,
                 py = Math_round (fullHeight panoData / 2 - relativeLat) - croppedY panoData \<rparr>)"

text \<open>
  A pixel point lies within the crop rectangle of the panorama when its coordinates are
  integers counted from the top left corner of the cropped image; the crop rectangle itself
  sits at an integer offset inside the full equirectangular image.
\<close>

definition validPanoData :: "panoData \<Rightarrow> bool" where
  "validPanoData d \<longleftrightarrow>
     croppedX d \<in> \<int> \<and> croppedY d \<in> \<int> \<and>
     0 \<le> croppedX d \<and> 0 \<le> croppedY d \<and>
     croppedX d + croppedWidth d \<le> fullWidth d \<and>
     croppedY d + croppedHeight d \<le> fullHeight d"

definition inCropRect :: "panoData \<Rightarrow> point \<Rightarrow> bool" where
  "inCropRect d p \<longleftrightarrow>
     px p \<in> \<int> \<and> py p \<in> \<int> \<and>
     0 \<le> px p \<and> px p < croppedWidth d \<and> 0 \<le> py p \<and> py p < croppedHeight d"

subsection \<open>Spherical coordinates and 3D vectors\<close>

text \<open>\<open>THREE.Vector3\<close>, with the operations the sources call on it.\<close>

record vector3 =
  vx :: real
  vy :: real
  vz :: real

definition dot :: "vector3 \<Rightarrow> vector3 \<Rightarrow> real" where
  "dot u v = vx u * vx v + vy u * vy v + vz u * vz v"

definition vlength :: "vector3 \<Rightarrow> real" where
  "vlength v = sqrt (vx v * vx v + vy v * vy v + vz v * vz v)"

definition multiplyScalar :: "vector3 \<Rightarrow> real \<Rightarrow> vector3" where
  "multiplyScalar v s = \<lparr> vx = vx v * s, vy = vy v * s, vz = vz v * s \<rparr>"

text \<open>
  \<open>Math.atan2(y, x)\<close>: the angle of the point \<open>(x, y)\<close> in \<open>(-pi, pi]\<close>, and 0 at the
  origin.
\<close>

definition Math_atan2 :: "real \<Rightarrow> real \<Rightarrow> real" where
  "Math_atan2 y x =
     (if 0 < x then arctan (y / x)
      else if x < 0 then (if 0 \<le> y then arctan (y / x) + pi else arctan (y / x) - pi)
      else if 0 < y then pi / 2
      else if y < 0 then - pi / 2
      else 0)"

text \<open>
  The radius \<open>SPHERE_RADIUS\<close> is imported from the \<open>constants\<close> module, which is not among
  the sources: it is the first argument of \<open>sphericalCoordsToVector3\<close>.
\<close>

definition sphericalCoordsToVector3 :: "real \<Rightarrow> position \<Rightarrow> vector3" where
  "sphericalCoordsToVector3 SPHERE_RADIUS pos =
     \<lparr> vx = SPHERE_RADIUS * - cos (latitude pos) * sin (longitude pos),
       vy = SPHERE_RADIUS * sin (latitude pos),
       vz = SPHERE_RADIUS * cos (latitude pos) * cos (longitude pos) \<rparr>"

definition vector3ToSphericalCoords :: "vector3 \<Rightarrow> position" where
  "vector3ToSphericalCoords v =
     (let phi = arccos (vy v / sqrt (vx v * vx v + vy v * vy v + vz v * vz v));
          theta = Math_atan2 (vx v) (vz v)
      in \<lparr> longitude = (if theta < 0 then - theta else pi * 2 - theta),
           latitude = pi / 2 - phi \<rparr>)"

text \<open>Two vectors agree within \<open>eps\<close> when each pair of components does.\<close>

definition approxEq :: "real \<Rightarrow> vector3 \<Rightarrow> vector3 \<Rightarrow> bool" where
  "approxEq eps u v \<longleftrightarrow>
     \<bar>vx u - vx v\<bar> \<le> eps \<and> \<bar>vy u - vy v\<bar> \<le> eps \<and> \<bar>vz u - vz v\<bar> \<le> eps"

subsection \<open>Angle normalisation\<close>

text \<open>
  Modelled from the spec: \<open>parseAngle\<close> is imported from the \<open>utils\<close> module, which is not
  among the sources. The spec gives a spherical position as ``longitude in [0, 2 pi),
  latitude in [-pi/2, pi/2]; longitude wraps; latitude clamps'', and normalisation as
  ``longitude wrap, latitude clamp''. The second argument (\<open>zeroCenter\<close>) selects the
  latitude normalisation. The argument is a number here; what the helper does with a
  string or with \<open>undefined\<close> is a parameter of the marker model below.
\<close>

definition parseAngle :: "real \<Rightarrow> bool \<Rightarrow> real" where
  "parseAngle angle zeroCenter =
     (if zeroCenter then max (- pi / 2) (min (pi / 2) angle)
      else angle - 2 * pi * of_int \<lfloor>angle / (2 * pi)\<rfloor>)"

subsection \<open>The range constraint solver\<close>

text \<open>
  The two bounds of \<open>longitudeRange\<close> after they are moved inwards by half the horizontal
  field of view (\<open>prop.hFov\<close> is kept in degrees), as \<open>applyRanges\<close> computes them.
\<close>

definition shrinkLongitudeRange :: "real \<times> real \<Rightarrow> real \<Rightarrow> real \<times> real" where
  "shrinkLongitudeRange rng hfov =
     (let offset = degToRad hfov / 2;
          rng0 = parseAngle (fst rng + offset) False;
          rng1 = parseAngle (snd rng - offset) False
      in (rng0, rng1))"

text \<open>
  The two bounds of \<open>latitudeRange\<close>: the second assignment of the source reads the first
  bound after it has been overwritten.
\<close>

definition shrinkLatitudeRange :: "real \<times> real \<Rightarrow> real \<Rightarrow> real \<times> real" where
  "shrinkLatitudeRange rng vfov =
     (let offset = degToRad vfov / 2;
          rng0 = parseAngle (min (fst rng + offset) (snd rng)) True;
          rng1 = parseAngle (max (snd rng - offset) rng0) True
      in (rng0, rng1))"

definition applyLongitudeRange :: "real \<times> real \<Rightarrow> real \<Rightarrow> real \<Rightarrow> real \<times> string list" where
  "applyLongitudeRange rng hfov long =
     (let (rng0, rng1) = shrinkLongitudeRange rng hfov
      in if rng0 > rng1 then
           (if long > rng1 \<and> long < rng0 then
              (if long > (rng0 / 2 + rng1 / 2) then (rng0, [''left''])
               else (rng1, [''right'']))
            else (long, []))
         else if long < rng0 then (rng0, [''left''])
         else if long > rng1 then (rng1, [''right''])
         else (long, []))"

definition applyLatitudeRange :: "real \<times> real \<Rightarrow> real \<Rightarrow> real \<Rightarrow> real \<times> string list" where
  "applyLatitudeRange rng vfov lat =
     (let (rng0, rng1) = shrinkLatitudeRange rng vfov
      in if lat < rng0 then (rng0, [''bottom''])
         else if lat > rng1 then (rng1, [''top''])
         else (lat, []))"

text \<open>
  \<open>applyRanges\<close> returns the ranged position together with \<open>sidesReached\<close>. A range that
  is not configured (\<open>null\<close>) is \<open>None\<close>.
\<close>

definition applyRanges ::
  "'a psv_config_scheme \<Rightarrow> 'b psv_prop_scheme \<Rightarrow> position \<Rightarrow> position \<times> string list" where
  "applyRanges config prop pos =
     (let (long, sides1) =
            (case longitudeRange config of
               None \<Rightarrow> (longitude pos, [])
             | Some rng \<Rightarrow> applyLongitudeRange rng (hFov prop) (longitude pos));
          (lat, sides2) =
            (case latitudeRange config of
               None \<Rightarrow> (latitude pos, [])
             | Some rng \<Rightarrow> applyLatitudeRange rng (vFov prop) (latitude pos))
      in (\<lparr> longitude = long, latitude = lat \<rparr>, sides1 @ sides2))"

subsection \<open>Marker configuration\<close>

text \<open>
  The content kinds of a marker. Each is also the name of the field of the marker
  configuration that carries the content.
\<close>

datatype marker_type =
  Image | Html | Square | Rect | Circle | Ellipse | Path
  | PolygonPx | PolygonRad | PolylinePx | PolylineRad

text \<open>
  Modelled from the spec: the table \<open>MARKER_TYPES\<close> belongs to the \<open>constants\<close> module,
  which is not among the sources. The spec fixes its eleven members (``image, html, square,
  rect, circle, ellipse, path, polygonPx, polygonRad, polylinePx, polylineRad''); the marker
  class names the same eleven. The order of the table has no influence on \<open>getType\<close>.
\<close>

definition MARKER_TYPES :: "marker_type list" where
  "MARKER_TYPES = [Image, Html, PolygonPx, PolygonRad, PolylinePx, PolylineRad,
                   Square, Rect, Circle, Ellipse, Path]"

text \<open>
  The fields of \<open>PSVMarker.Properties\<close> that the marker class reads, each absent (\<open>None\<close>)
  or present with a value of the documented type: an angle is a number or a string such as
  \<open>'45deg'\<close>; \<open>rect\<close> and \<open>ellipse\<close> are a two-element array or an object; a polygon
  or polyline is a flat array of numbers or an array of pairs (a pair may lack its second
  element); a tooltip is a string or an object with a content and an optional position.
  Fields that only reach the DOM element (\<open>className\<close>, \<open>style\<close>, \<open>svgStyle\<close>) or the
  renderer (\<open>scale\<close>, \<open>lockRotation\<close>) are left out.
\<close>

datatype angle = AngleNumber real | AngleString string

datatype size_config = SizeArray real real | SizeObject real real

datatype poly_config = Flat "real list" | Pairs "(real \<times> real option) list"

datatype tooltip_config = TooltipString string | TooltipObject string "string option"

record marker_config =
  c_id :: "string option"
  c_x :: "real option"
  c_y :: "real option"
  c_longitude :: "angle option"
  c_latitude :: "angle option"
  c_image :: "string option"
  c_html :: "string option"
  c_width :: "real option"
  c_height :: "real option"
  c_square :: "real option"
  c_rect :: "size_config option"
  c_circle :: "real option"
  c_ellipse :: "size_config option"
  c_path :: "string option"
  c_polygonPx :: "poly_config option"
  c_polygonRad :: "poly_config option"
  c_polylinePx :: "poly_config option"
  c_polylineRad :: "poly_config option"
  c_visible :: "bool option"
  c_tooltip :: "tooltip_config option"
  c_anchor :: "string option"

definition emptyConfig :: marker_config where
  "emptyConfig = \<lparr> c_id = None, c_x = None, c_y = None, c_longitude = None, c_latitude = None,
     c_image = None, c_html = None, c_width = None, c_height = None, c_square = None,
     c_rect = None, c_circle = None, c_ellipse = None, c_path = None, c_polygonPx = None,
     c_polygonRad = None, c_polylinePx = None, c_polylineRad = None, c_visible = None,
     c_tooltip = None, c_anchor = None \<rparr>"


text \<open>JavaScript truthiness of an optional string and of an optional number.\<close>

fun truthyString :: "string option \<Rightarrow> bool" where
  "truthyString None = False"
| "truthyString (Some s) = (s \<noteq> [])"

fun truthyNumber :: "real option \<Rightarrow> bool" where
  "truthyNumber None = False"
| "truthyNumber (Some r) = (r \<noteq> 0)"

text \<open>\<open>type in properties\<close>.\<close>

fun hasKey :: "marker_type \<Rightarrow> marker_config \<Rightarrow> bool" where
  "hasKey Image p = (c_image p \<noteq> None)"
| "hasKey Html p = (c_html p \<noteq> None)"
| "hasKey Square p = (c_square p \<noteq> None)"
| "hasKey Rect p = (c_rect p \<noteq> None)"
| "hasKey Circle p = (c_circle p \<noteq> None)"
| "hasKey Ellipse p = (c_ellipse p \<noteq> None)"
| "hasKey Path p = (c_path p \<noteq> None)"
| "hasKey PolygonPx p = (c_polygonPx p \<noteq> None)"
| "hasKey PolygonRad p = (c_polygonRad p \<noteq> None)"
| "hasKey PolylinePx p = (c_polylinePx p \<noteq> None)"
| "hasKey PolylineRad p = (c_polylineRad p \<noteq> None)"

text \<open>
  \<open>PSVMarker.getType\<close>. The source appends the list of content kinds to both messages.
  The result \<open>Inr None\<close> is \<open>undefined\<close>.
\<close>

definition getType :: "marker_config \<Rightarrow> bool \<Rightarrow> error + marker_type option" where
  "getType properties allowNone =
     (let found = filter (\<lambda>t. hasKey t properties) MARKER_TYPES
      in if length found = 0 \<and> \<not> allowNone then Inl (PSVError ''missing marker content'')
         else if length found > 1 then Inl (PSVError ''multiple marker content'')
         else Inr (case found of [] \<Rightarrow> None | t # _ \<Rightarrow> Some t))"

subsection \<open>Helpers of the utils module\<close>

text \<open>\<open>PhotoSphereViewer.ExtendedPosition\<close>: the argument of \<open>cleanPosition\<close>.\<close>

record ext_position =
  e_x :: "real option"
  e_y :: "real option"
  e_longitude :: "angle option"
  e_latitude :: "angle option"

text \<open>
  The \<open>utils\<close> module is not among the sources. Three of its functions are called by the
  code modelled here and are parameters of the model:
  \<^item> \<open>deepmerge\<close>, which merges new properties into the stored configuration;
  \<^item> \<open>parsePosition\<close>, which turns the \<open>anchor\<close> option into a pair of fractions;
  \<^item> \<open>parseAngleOther\<close>, which is \<open>parseAngle\<close> on an argument that is not a number: a
    string (\<open>Some s\<close>) or \<open>undefined\<close> (\<open>None\<close>). It yields the parsed and normalised
    angle or throws.
\<close>

record utils =
  deepmerge :: "marker_config \<Rightarrow> marker_config \<Rightarrow> marker_config"
  parsePosition :: "string option \<Rightarrow> point"
  parseAngleOther :: "string option \<Rightarrow> bool \<Rightarrow> error + real"

definition parseAngleArg :: "utils \<Rightarrow> angle option \<Rightarrow> bool \<Rightarrow> error + real" where
  "parseAngleArg U a zeroCenter =
     (case a of
        Some (AngleNumber r) \<Rightarrow> Inr (parseAngle r zeroCenter)
      | Some (AngleString s) \<Rightarrow> parseAngleOther U (Some s) zeroCenter
      | None \<Rightarrow> parseAngleOther U None zeroCenter)"

text \<open>Whether an error is a \<open>PSVError\<close>, the configuration error of the spec.\<close>

fun isPSVError :: "error \<Rightarrow> bool" where
  "isPSVError (PSVError msg) = True"
| "isPSVError _ = False"

text \<open>
  Modelled from the spec: what \<open>parseAngle\<close> does with an argument it cannot use. The spec
  has marker creation fail with a configuration error when ``a point/shape marker lacks
  both pixel (x, y) and spherical (longitude, latitude) position''; for the kinds that the
  constructor does not check itself, that failure is the helper's, on the missing angle.
  A helper meets the spec when every error it throws is a \<open>PSVError\<close> and it never accepts
  a missing angle.
\<close>

definition rejectsMissingAngle :: "utils \<Rightarrow> bool" where
  "rejectsMissingAngle U \<longleftrightarrow>
     (\<forall>a zeroCenter. case parseAngleOther U a zeroCenter of
                         Inl e \<Rightarrow> isPSVError e
                       | Inr r \<Rightarrow> a \<noteq> None)"

text \<open>\<open>PSVDataHelper.cleanPosition\<close>; the longitude is parsed before the latitude.\<close>

definition cleanPosition :: "utils \<Rightarrow> 'a psv_prop_scheme \<Rightarrow> ext_position \<Rightarrow> error + position" where
  "cleanPosition U prop ep =
     (case (e_x ep, e_y ep) of
        (Some x, Some y) \<Rightarrow> textureCoordsToSphericalCoords prop \<lparr> px = x, py = y \<rparr>
      | _ \<Rightarrow>
         (case parseAngleArg U (e_longitude ep) False of
            Inl e \<Rightarrow> Inl e
          | Inr lo \<Rightarrow>
             (case parseAngleArg U (e_latitude ep) True of
                Inl e \<Rightarrow> Inl e
              | Inr la \<Rightarrow> Inr \<lparr> longitude = lo, latitude = la \<rparr>)))"

subsection \<open>Markers\<close>

text \<open>
  \<open>props.def\<close>: the content of a normal marker, the attributes of an SVG shape (a value
  read from a missing configuration field is \<open>None\<close>), or the list of spherical
  coordinates of a polygon or polyline.
\<close>

datatype marker_def =
  DefContent string
  | DefRect real real "real option" "real option"
  | DefCircle "real option" "real option" "real option"
  | DefEllipse real real real real
  | DefPath "string option"
  | DefPoly "(real \<times> real) list"

record marker_props =
  dynamicSize :: bool
  anchor :: "point option"
  position :: "position option"
  position2D :: "point option"
  positions3D :: "vector3 list option"
  width :: "real option"
  height :: "real option"
  def :: "marker_def option"

text \<open>
  The marker object. The DOM element \<open>$el\<close> and the reference to the viewer are left out:
  the viewer's panorama data and the sphere radius are arguments of the functions below.
\<close>

record marker =
  m_id :: string
  m_type :: marker_type
  m_visible :: bool
  m_config :: marker_config
  m_props :: marker_props

definition isNormal :: "marker \<Rightarrow> bool" where
  "isNormal m \<longleftrightarrow> m_type m = Image \<or> m_type m = Html"

definition isPolygon :: "marker \<Rightarrow> bool" where
  "isPolygon m \<longleftrightarrow> m_type m = PolygonPx \<or> m_type m = PolygonRad"

definition isPolyline :: "marker \<Rightarrow> bool" where
  "isPolyline m \<longleftrightarrow> m_type m = PolylinePx \<or> m_type m = PolylineRad"

definition isPoly :: "marker \<Rightarrow> bool" where
  "isPoly m \<longleftrightarrow> isPolygon m \<or> isPolyline m"

definition isPolyPx :: "marker \<Rightarrow> bool" where
  "isPolyPx m \<longleftrightarrow> m_type m = PolygonPx \<or> m_type m = PolylinePx"

definition isPolyRad :: "marker \<Rightarrow> bool" where
  "isPolyRad m \<longleftrightarrow> m_type m = PolygonRad \<or> m_type m = PolylineRad"

definition isSvg :: "marker \<Rightarrow> bool" where
  "isSvg m \<longleftrightarrow> m_type m = Square \<or> m_type m = Rect \<or> m_type m = Circle
                \<or> m_type m = Ellipse \<or> m_type m = Path"

text \<open>The position fields of a marker configuration, as \<open>cleanPosition\<close> reads them.\<close>

definition positionOf :: "marker_config \<Rightarrow> ext_position" where
  "positionOf c = \<lparr> e_x = c_x c, e_y = c_y c, e_longitude = c_longitude c,
                    e_latitude = c_latitude c \<rparr>"

text \<open>The last two assignments of \<open>__updateNormal\<close> and of \<open>__updateSvg\<close>.\<close>

definition setPosition :: "real \<Rightarrow> position \<Rightarrow> marker \<Rightarrow> marker" where
  "setPosition R pos m =
     m\<lparr> m_props := (m_props m)\<lparr> position := Some pos,
                                  positions3D := Some [sphericalCoordsToVector3 R pos] \<rparr> \<rparr>"

text \<open>
  The three update methods return the error thrown, if any, together with the marker as
  the call leaves it: a method that throws half-way has already mutated the marker.
\<close>

definition updateNormal ::
  "utils \<Rightarrow> real \<Rightarrow> 'a psv_prop_scheme \<Rightarrow> marker \<Rightarrow> error option \<times> marker" where
  "updateNormal U R prop m =
     (let c = m_config m;
          p1 = (if truthyNumber (c_width c) \<and> truthyNumber (c_height c)
                then (m_props m)\<lparr> dynamicSize := False, width := c_width c, height := c_height c \<rparr>
                else (m_props m)\<lparr> dynamicSize := True \<rparr>);
          p2 = (if truthyString (c_image c) then p1\<lparr> def := map_option DefContent (c_image c) \<rparr>
                else if truthyString (c_html c) then p1\<lparr> def := map_option DefContent (c_html c) \<rparr>
                else p1);
          m1 = m\<lparr> m_props := p2 \<rparr>
      in case anchor p2 of
           None \<Rightarrow> (Some TypeError, m1)
         | Some _ \<Rightarrow>
            (case cleanPosition U prop (positionOf c) of
               Inl e \<Rightarrow> (Some e, m1)
             | Inr pos \<Rightarrow> (None, setPosition R pos m1)))"

definition svgDef :: "marker_type \<Rightarrow> marker_config \<Rightarrow> marker_def option \<Rightarrow> error + marker_def option" where
  "svgDef t c old =
     (case t of
        Square \<Rightarrow> Inr (Some (DefRect 0 0 (c_square c) (c_square c)))
      | Rect \<Rightarrow>
         (case c_rect c of
            None \<Rightarrow> Inl TypeError
          | Some (SizeArray w h) \<Rightarrow> Inr (Some (DefRect 0 0 (Some w) (Some h)))
          | Some (SizeObject w h) \<Rightarrow> Inr (Some (DefRect 0 0 (Some w) (Some h))))
      | Circle \<Rightarrow> Inr (Some (DefCircle (c_circle c) (c_circle c) (c_circle c)))
      | Ellipse \<Rightarrow>
         (case c_ellipse c of
            None \<Rightarrow> Inl TypeError
          | Some (SizeArray rx ry) \<Rightarrow> Inr (Some (DefEllipse rx ry rx ry))
          | Some (SizeObject rx ry) \<Rightarrow> Inr (Some (DefEllipse rx ry rx ry)))
      | Path \<Rightarrow> Inr (Some (DefPath (c_path c)))
      | _ \<Rightarrow> Inr old)"

definition updateSvg ::
  "utils \<Rightarrow> real \<Rightarrow> 'a psv_prop_scheme \<Rightarrow> marker \<Rightarrow> error option \<times> marker" where
  "updateSvg U R prop m =
     (let m1 = m\<lparr> m_props := (m_props m)\<lparr> dynamicSize := True \<rparr> \<rparr>
      in case svgDef (m_type m1) (m_config m1) (def (m_props m1)) of
           Inl e \<Rightarrow> (Some e, m1)
         | Inr d \<Rightarrow>
            (let m2 = m1\<lparr> m_props := (m_props m1)\<lparr> def := d \<rparr> \<rparr>
             in case cleanPosition U prop (positionOf (m_config m2)) of
                  Inl e \<Rightarrow> (Some e, m2)
                | Inr pos \<Rightarrow> (None, setPosition R pos m2)))"

text \<open>
  The loop of \<open>__updatePoly\<close> that folds a flat array into pairs in place,
  \<open>[1,2,3,4] => [[1,2],[3,4]]\<close>; an odd element is paired with \<open>undefined\<close>.
\<close>

fun foldPairs :: "real list \<Rightarrow> (real \<times> real option) list" where
  "foldPairs [] = []"
| "foldPairs [a] = [(a, None)]"
| "foldPairs (a # b # rest) = (a, Some b) # foldPairs rest"

text \<open>\<open>Array.map\<close> with a callback that may throw.\<close>

fun mapE :: "('a \<Rightarrow> error + 'b) \<Rightarrow> 'a list \<Rightarrow> error + 'b list" where
  "mapE f [] = Inr []"
| "mapE f (x # xs) =
     (case f x of
        Inl e \<Rightarrow> Inl e
      | Inr y \<Rightarrow> (case mapE f xs of Inl e \<Rightarrow> Inl e | Inr ys \<Rightarrow> Inr (y # ys)))"

text \<open>
  The two callbacks of \<open>__updatePoly\<close>. A pixel pair without second element enters the
  arithmetic of \<open>textureCoordsToSphericalCoords\<close> as \<open>undefined\<close>; the source goes on
  with NaN, which the model does not follow (\<open>OutsideModel\<close>).
\<close>

definition pxCoord :: "'a psv_prop_scheme \<Rightarrow> real \<times> real option \<Rightarrow> error + real \<times> real" where
  "pxCoord prop coord =
     (case coord of
        (a, Some b) \<Rightarrow>
          (case textureCoordsToSphericalCoords prop \<lparr> px = a, py = b \<rparr> of
             Inl e \<Rightarrow> Inl e
           | Inr sphericalCoords \<Rightarrow> Inr (longitude sphericalCoords, latitude sphericalCoords))
      | (a, None) \<Rightarrow>
          (if isCubemap prop then Inl (PSVError ''Unable to use texture coords with cubemap.'')
           else Inl OutsideModel))"

definition radCoord :: "utils \<Rightarrow> real \<times> real option \<Rightarrow> error + real \<times> real" where
  "radCoord U coord =
     (case parseAngleArg U (Some (AngleNumber (fst coord))) False of
        Inl e \<Rightarrow> Inl e
      | Inr lo \<Rightarrow>
         (case parseAngleArg U (map_option AngleNumber (snd coord)) True of
            Inl e \<Rightarrow> Inl e
          | Inr la \<Rightarrow> Inr (lo, la)))"

text \<open>
  \<open>config.polygonPx || config.polygonRad || config.polylinePx || config.polylineRad\<close>,
  with the field it was read from, and the write-back of the folded array.
\<close>

definition actualPoly :: "marker_config \<Rightarrow> (marker_type \<times> poly_config) option" where
  "actualPoly c =
     (case c_polygonPx c of Some a \<Rightarrow> Some (PolygonPx, a) | None \<Rightarrow>
     (case c_polygonRad c of Some a \<Rightarrow> Some (PolygonRad, a) | None \<Rightarrow>
     (case c_polylinePx c of Some a \<Rightarrow> Some (PolylinePx, a) | None \<Rightarrow>
     (case c_polylineRad c of Some a \<Rightarrow> Some (PolylineRad, a) | None \<Rightarrow> None))))"

definition storePoly :: "marker_type \<Rightarrow> poly_config \<Rightarrow> marker_config \<Rightarrow> marker_config" where
  "storePoly key a c =
     (case key of
        PolygonPx \<Rightarrow> c\<lparr> c_polygonPx := Some a \<rparr>
      | PolygonRad \<Rightarrow> c\<lparr> c_polygonRad := Some a \<rparr>
      | PolylinePx \<Rightarrow> c\<lparr> c_polylinePx := Some a \<rparr>
      | PolylineRad \<Rightarrow> c\<lparr> c_polylineRad := Some a \<rparr>
      | _ \<Rightarrow> c)"

definition updatePoly ::
  "utils \<Rightarrow> real \<Rightarrow> 'a psv_prop_scheme \<Rightarrow> marker \<Rightarrow> error option \<times> marker" where
  "updatePoly U R prop m =
     (let m1 = m\<lparr> m_props := (m_props m)\<lparr> dynamicSize := True \<rparr> \<rparr>
      in case actualPoly (m_config m1) of
           None \<Rightarrow> (Some TypeError, m1)
         | Some (key, a) \<Rightarrow>
            (let pairs = (case a of Flat xs \<Rightarrow> foldPairs xs | Pairs ps \<Rightarrow> ps);
                 m2 = m1\<lparr> m_config := storePoly key (Pairs pairs) (m_config m1) \<rparr>
             in case (if isPolyPx m2 then mapE (pxCoord prop) pairs else mapE (radCoord U) pairs) of
                  Inl e \<Rightarrow> (Some e, m2)
                | Inr d \<Rightarrow>
                   (let m3 = m2\<lparr> m_props := (m_props m2)\<lparr> def := Some (DefPoly d) \<rparr> \<rparr>
                    in case d of
                         [] \<Rightarrow> (Some TypeError, m3)
                       | first # _ \<Rightarrow>
                          (None, m3\<lparr> m_props := (m_props m3)
                             \<lparr> position := Some \<lparr> longitude = fst first, latitude = snd first \<rparr>,
                               positions3D := Some (map (\<lambda>coord. sphericalCoordsToVector3 R
                                  \<lparr> longitude = fst coord, latitude = snd coord \<rparr>) d) \<rparr> \<rparr>))))"

text \<open>
  The argument of \<open>update\<close>: missing, the marker's own configuration object, or another
  properties object.
\<close>

datatype update_arg = NoProperties | OwnConfig | NewProperties marker_config

definition normaliseTooltip :: "marker_config \<Rightarrow> marker_config" where
  "normaliseTooltip c =
     (case c_tooltip c of
        Some (TooltipString s) \<Rightarrow>
          (if s \<noteq> [] then c\<lparr> c_tooltip := Some (TooltipObject s None) \<rparr> else c)
      | _ \<Rightarrow> c)"

text \<open>
  The first block of \<open>update\<close>, guarded by \<open>properties && properties !== this.config\<close>:
  the type check, the merge and the assignment of the \<open>visible\<close> flag.
\<close>

definition mergeProperties :: "utils \<Rightarrow> marker \<Rightarrow> update_arg \<Rightarrow> error option \<times> marker" where
  "mergeProperties U m arg =
     (case arg of
        NewProperties properties \<Rightarrow>
          (case getType properties True of
             Inl e \<Rightarrow> (Some e, m)
           | Inr newType \<Rightarrow>
              (if newType \<noteq> None \<and> newType \<noteq> Some (m_type m)
               then (Some (PSVError ''cannot change marker type''), m)
               else (None, m\<lparr> m_config := deepmerge U (m_config m) properties,
                               m_visible := (c_visible properties \<noteq> Some False) \<rparr>)))
      | _ \<Rightarrow> (None, m))"

text \<open>\<open>PSVMarker.update\<close>.\<close>

definition update ::
  "utils \<Rightarrow> real \<Rightarrow> 'a psv_prop_scheme \<Rightarrow> marker \<Rightarrow> update_arg \<Rightarrow> error option \<times> marker" where
  "update U R prop m arg =
     (case mergeProperties U m arg of
        (Some e, m1) \<Rightarrow> (Some e, m1)
      | (None, m1) \<Rightarrow>
         (let m2 = m1\<lparr> m_config := normaliseTooltip (m_config m1) \<rparr>;
              m3 = m2\<lparr> m_props := (m_props m2)
                         \<lparr> anchor := Some (parsePosition U (c_anchor (m_config m2))) \<rparr> \<rparr>
          in if isNormal m3 then updateNormal U R prop m3
             else if isPoly m3 then updatePoly U R prop m3
             else updateSvg U R prop m3))"

definition initialProps :: marker_props where
  "initialProps = \<lparr> dynamicSize = False, anchor = None, position = None, position2D = None,
                    positions3D = None, width = None, height = None, def = None \<rparr>"

text \<open>
  The condition of the constructor on the position:
  \<open>(!('x' in p) || !('y' in p)) && (!('latitude' in p) || !('longitude' in p))\<close>.
\<close>

definition lacksPosition :: "marker_config \<Rightarrow> bool" where
  "lacksPosition properties \<longleftrightarrow>
     (c_x properties = None \<or> c_y properties = None) \<and>
     (c_latitude properties = None \<or> c_longitude properties = None)"

text \<open>
  The constructor of \<open>PSVMarker\<close>. The branch \<open>Inr None\<close> of \<open>getType\<close> is not
  reachable when \<open>allowNone\<close> is false (lemma \<open>getType_required\<close>).
\<close>

definition PSVMarker ::
  "utils \<Rightarrow> real \<Rightarrow> 'a psv_prop_scheme \<Rightarrow> marker_config \<Rightarrow> error + marker" where
  "PSVMarker U R prop properties =
     (if \<not> truthyString (c_id properties) then Inl (PSVError ''missing marker id'')
      else if truthyString (c_image properties)
              \<and> (\<not> truthyNumber (c_width properties) \<or> \<not> truthyNumber (c_height properties))
      then Inl (PSVError ''missing marker width/height'')
      else if (truthyString (c_image properties) \<or> truthyString (c_html properties))
              \<and> lacksPosition properties
      then Inl (PSVError ''missing marker position, latitude/longitude or x/y'')
      else
        (case getType properties False of
           Inl e \<Rightarrow> Inl e
         | Inr None \<Rightarrow> Inl TypeError
         | Inr (Some t) \<Rightarrow>
            (case update U R prop
                    \<lparr> m_id = (case c_id properties of Some i \<Rightarrow> i | None \<Rightarrow> []),
                      m_type = t, m_visible = True,
                      m_config = emptyConfig, m_props = initialProps \<rparr>
                    (NewProperties properties) of
               (Some e, _) \<Rightarrow> Inl e
             | (None, m) \<Rightarrow> Inr m)))"


subsection \<open>The per-frame marker pass of the HUD\<close>

text \<open>Operations of \<open>THREE.Vector3\<close>; \<open>normalize\<close> leaves the zero vector as it is.\<close>

definition crossVectors :: "vector3 \<Rightarrow> vector3 \<Rightarrow> vector3" where
  "crossVectors a b =
     \<lparr> vx = vy a * vz b - vz a * vy b,
       vy = vz a * vx b - vx a * vz b,
       vz = vx a * vy b - vy a * vx b \<rparr>"

definition addVectors :: "vector3 \<Rightarrow> vector3 \<Rightarrow> vector3" where
  "addVectors a b = \<lparr> vx = vx a + vx b, vy = vy a + vy b, vz = vz a + vz b \<rparr>"

definition normalize :: "vector3 \<Rightarrow> vector3" where
  "normalize v = multiplyScalar v (1 / (if vlength v = 0 then 1 else vlength v))"

text \<open>
  What the pass reads from the viewer and from external collaborators: the sphere radius,
  the camera direction \<open>psv.prop.direction\<close>, the viewer size, the camera projection used
  by \<open>Vector3.project\<close>, the rotation \<open>Vector3.applyAxisAngle\<close> and the size of a marker's
  element as \<open>getBoundingClientRect\<close> measures it.
\<close>

record hud_env =
  SPHERE_RADIUS :: real
  direction :: vector3
  size_width :: real
  size_height :: real
  project :: "vector3 \<Rightarrow> vector3"
  applyAxisAngle :: "vector3 \<Rightarrow> vector3 \<Rightarrow> real \<Rightarrow> vector3"
  getBoundingClientRect :: "marker \<Rightarrow> real \<times> real"

definition vector3ToViewerCoords :: "hud_env \<Rightarrow> vector3 \<Rightarrow> point" where
  "vector3ToViewerCoords env vector =
     (let vectorClone = project env vector
      in \<lparr> px = Math_round ((vx vectorClone + 1) / 2 * size_width env),
           py = Math_round ((1 - vy vectorClone) / 2 * size_height env) \<rparr>)"

definition getPolyIntermediaryPoint :: "hud_env \<Rightarrow> vector3 \<Rightarrow> vector3 \<Rightarrow> vector3" where
  "getPolyIntermediaryPoint env P1 P2 =
     (let C = normalize (direction env);
          N = normalize (crossVectors P1 P2);
          V = normalize (crossVectors N P1);
          H = normalize (addVectors (multiplyScalar P1 (- dot C V)) (multiplyScalar V (dot C P1)));
          a = crossVectors H C
      in multiplyScalar (applyAxisAngle env H a (1 / 100)) (SPHERE_RADIUS env))"

text \<open>Reading an array element: \<open>undefined\<close> out of range.\<close>

definition nthOpt :: "'a list \<Rightarrow> nat \<Rightarrow> 'a option" where
  "nthOpt xs i = (if i < length xs then Some (xs ! i) else None)"

text \<open>
  \<open>__getPolyPositions\<close>. Each vector is paired with its visibility; \<open>toBeComputed\<close> is the
  list of (visible vector, invisible vector, index) collected for every invisible vector
  next to a visible one; reading \<open>visible\<close> of a neighbour that is \<open>undefined\<close> would throw.
\<close>

definition neighbours :: "(vector3 \<times> bool) list \<Rightarrow> nat \<Rightarrow> (vector3 \<times> bool) option list" where
  "neighbours positions i =
     (let nbVectors = length positions
      in [if i = 0 then nthOpt positions (nbVectors - 1) else nthOpt positions (i - 1),
          if i = nbVectors - 1 then nthOpt positions 0 else nthOpt positions (i + 1)])"

fun neighbourPairs ::
  "vector3 \<times> bool \<Rightarrow> nat \<Rightarrow> (vector3 \<times> bool) option list \<Rightarrow> error + (vector3 \<times> vector3 \<times> nat) list" where
  "neighbourPairs pos i [] = Inr []"
| "neighbourPairs pos i (None # rest) = Inl TypeError"
| "neighbourPairs pos i (Some neighbour # rest) =
     (case neighbourPairs pos i rest of
        Inl e \<Rightarrow> Inl e
      | Inr others \<Rightarrow> Inr ((if snd neighbour then [(fst neighbour, fst pos, i)] else []) @ others))"

fun concatE :: "(error + 'a list) list \<Rightarrow> error + 'a list" where
  "concatE [] = Inr []"
| "concatE (Inl e # rest) = Inl e"
| "concatE (Inr xs # rest) = (case concatE rest of Inl e \<Rightarrow> Inl e | Inr ys \<Rightarrow> Inr (xs @ ys))"

definition toBeComputed :: "(vector3 \<times> bool) list \<Rightarrow> error + (vector3 \<times> vector3 \<times> nat) list" where
  "toBeComputed positions =
     concatE (map (\<lambda>i. if snd (positions ! i) then Inr []
                        else neighbourPairs (positions ! i) i (neighbours positions i))
                  [0 ..< length positions])"

text \<open>\<open>positions3D.splice(index, 0, x)\<close>.\<close>

definition splice :: "nat \<Rightarrow> 'a \<Rightarrow> 'a list \<Rightarrow> 'a list" where
  "splice i x xs = take i xs @ [x] @ drop i xs"

definition insertIntermediaries ::
  "hud_env \<Rightarrow> (vector3 \<times> vector3 \<times> nat) list \<Rightarrow> (vector3 \<times> bool) list \<Rightarrow> (vector3 \<times> bool) list" where
  "insertIntermediaries env pairs positions =
     foldl (\<lambda>acc pair. case pair of (visibleV, invisibleV, index) \<Rightarrow>
              splice index (getPolyIntermediaryPoint env visibleV invisibleV, True) acc)
           positions (rev pairs)"

definition getPolyPositions :: "hud_env \<Rightarrow> marker \<Rightarrow> error + point list" where
  "getPolyPositions env m =
     (case positions3D (m_props m) of
        None \<Rightarrow> Inl TypeError
      | Some vectors \<Rightarrow>
         (let positions = map (\<lambda>vector. (vector, dot vector (direction env) > 0)) vectors
          in case toBeComputed positions of
               Inl e \<Rightarrow> Inl e
             | Inr pairs \<Rightarrow>
                Inr (map (\<lambda>pos. vector3ToViewerCoords env (fst pos))
                       (filter snd (insertIntermediaries env pairs positions)))))"

text \<open>
  \<open>__getPolyDimensions\<close>. The bounds of an empty list are infinite in the source and
  \<open>None\<close> here; the function is only called with at least two positions.
\<close>

fun lowest :: "real list \<Rightarrow> real option" where
  "lowest [] = None"
| "lowest (x # xs) = Some (fold min xs x)"

fun highest :: "real list \<Rightarrow> real option" where
  "highest [] = None"
| "highest (x # xs) = Some (fold max xs x)"

definition getPolyDimensions :: "marker \<Rightarrow> point list \<Rightarrow> point option \<times> marker" where
  "getPolyDimensions m positions =
     (let minX = lowest (map px positions); minY = lowest (map py positions);
          maxX = highest (map px positions); maxY = highest (map py positions);
          w = (case (minX, maxX) of (Some lo, Some hi) \<Rightarrow> Some (hi - lo) | _ \<Rightarrow> None);
          h = (case (minY, maxY) of (Some lo, Some hi) \<Rightarrow> Some (hi - lo) | _ \<Rightarrow> None)
      in ((case (minX, minY) of (Some a, Some b) \<Rightarrow> Some \<lparr> px = a, py = b \<rparr> | _ \<Rightarrow> None),
          m\<lparr> m_props := (m_props m)\<lparr> width := w, height := h \<rparr> \<rparr>))"

text \<open>A \<open>null\<close> width or height counts as 0 in arithmetic.\<close>

definition number :: "real option \<Rightarrow> real" where
  "number v = (case v of None \<Rightarrow> 0 | Some r \<Rightarrow> r)"

definition getMarkerPosition :: "hud_env \<Rightarrow> marker \<Rightarrow> error + point \<times> marker" where
  "getMarkerPosition env m =
     (let m1 = (if dynamicSize (m_props m)
                then m\<lparr> m_props := (m_props m)\<lparr> width := Some (fst (getBoundingClientRect env m)),
                                             height := Some (snd (getBoundingClientRect env m)) \<rparr> \<rparr>
                else m)
      in case positions3D (m_props m1) of
           Some (vector # _) \<Rightarrow>
             (case anchor (m_props m1) of
                None \<Rightarrow> Inl TypeError
              | Some a \<Rightarrow>
                 (let pos = vector3ToViewerCoords env vector
                  in Inr (\<lparr> px = px pos - number (width (m_props m1)) * px a,
                            py = py pos - number (height (m_props m1)) * py a \<rparr>, m1)))
         | _ \<Rightarrow> Inl TypeError)"

definition isMarkerVisible :: "hud_env \<Rightarrow> marker \<Rightarrow> point \<Rightarrow> error + bool" where
  "isMarkerVisible env m pos =
     (case positions3D (m_props m) of
        Some (vector # _) \<Rightarrow>
          Inr (dot vector (direction env) > 0
               \<and> px pos + number (width (m_props m)) \<ge> 0
               \<and> px pos - number (width (m_props m)) \<le> size_width env
               \<and> py pos + number (height (m_props m)) \<ge> 0
               \<and> py pos - number (height (m_props m)) \<le> size_height env)
      | _ \<Rightarrow> Inl TypeError)"

text \<open>
  The body of the loop of \<open>renderMarkers\<close> for one marker: the frame visibility that is
  written to the class \<open>psv-marker--visible\<close>, and the marker as the pass leaves it.
\<close>

definition renderMarker :: "hud_env \<Rightarrow> marker \<Rightarrow> error + bool \<times> marker" where
  "renderMarker env m =
     (if m_visible m \<and> isPoly m then
        (case getPolyPositions env m of
           Inl e \<Rightarrow> Inl e
         | Inr positions \<Rightarrow>
            (if length positions > (if isPolygon m then 2 else 1)
             then (case getPolyDimensions m positions of
                     (p2D, m1) \<Rightarrow> Inr (True, m1\<lparr> m_props := (m_props m1)\<lparr> position2D := p2D \<rparr> \<rparr>))
             else Inr (False, m)))
      else if m_visible m then
        (case getMarkerPosition env m of
           Inl e \<Rightarrow> Inl e
         | Inr (pos, m1) \<Rightarrow>
            (case isMarkerVisible env m1 pos of
               Inl e \<Rightarrow> Inl e
             | Inr isVisible \<Rightarrow>
                (if isVisible
                 then Inr (True, m1\<lparr> m_props := (m_props m1)\<lparr> position2D := Some pos \<rparr> \<rparr>)
                 else Inr (False, m1))))
      else Inr (False, m))"


text \<open>The marker registry of the HUD, in insertion order, and \<open>hideMarker\<close>.\<close>

record hud =
  markers :: "(string \<times> marker) list"
  hud_visible :: bool

definition getMarker :: "hud \<Rightarrow> string \<Rightarrow> error + marker" where
  "getMarker h markerId =
     (case map_of (markers h) markerId of
        None \<Rightarrow> Inl (PSVError ''cannot find marker'')
      | Some m \<Rightarrow> Inr m)"

definition renderMarkers :: "hud_env \<Rightarrow> hud \<Rightarrow> error + hud \<times> (string \<times> bool) list" where
  "renderMarkers env h =
     (if \<not> hud_visible h then Inr (h, [])
      else case mapE (\<lambda>entry. case renderMarker env (snd entry) of
                                   Inl e \<Rightarrow> Inl e
                                 | Inr (isVisible, m) \<Rightarrow> Inr ((fst entry, m), (fst entry, isVisible)))
                     (markers h) of
             Inl e \<Rightarrow> Inl e
           | Inr rendered \<Rightarrow> Inr (h\<lparr> markers := map fst rendered \<rparr>, map snd rendered))"

definition hideMarker :: "hud_env \<Rightarrow> hud \<Rightarrow> string \<Rightarrow> error + hud \<times> (string \<times> bool) list" where
  "hideMarker env h markerId =
     (case getMarker h markerId of
        Inl e \<Rightarrow> Inl e
      | Inr m \<Rightarrow>
         renderMarkers env
           (h\<lparr> markers := map (\<lambda>entry. if fst entry = markerId
                                         then (fst entry, m\<lparr> m_visible := False \<rparr>)
                                         else entry) (markers h) \<rparr>))"

subsection \<open>Loading a panorama\<close>

text \<open>
  The part of the viewer that \<open>setPanorama\<close> reads and writes. \<open>prop.loadingPromise\<close> is
  \<open>null\<close> (\<open>None\<close>) or the pending promise chain, which is either waiting for the texture
  (with the cleaned position, and whether a transition follows) or waiting for the
  transition. \<open>requested\<close> lists the calls of \<open>textureLoader.loadTexture\<close>.
\<close>

record transition_config =
  loader :: bool

record viewer_config = psv_config +
  panorama :: "string option"
  transition :: "transition_config option"

datatype loading = Loading "position option" bool | Transitioning

record viewer_prop = psv_prop +
  ready :: bool
  viewPosition :: position
  loadingPromise :: "loading option"

record viewer =
  v_config :: viewer_config
  v_prop :: viewer_prop
  loaderVisible :: bool
  rendererVisible :: bool
  requested :: "string list"
  texture :: "string option"

datatype position_arg = PositionUndefined | PositionBoolean bool | PositionObject ext_position

text \<open>\<open>PhotoSphereViewer.rotate\<close>, as far as the position is concerned.\<close>

definition rotate :: "utils \<Rightarrow> viewer \<Rightarrow> ext_position \<Rightarrow> error option \<times> viewer" where
  "rotate U v ep =
     (case cleanPosition U (v_prop v) ep of
        Inl e \<Rightarrow> (Some e, v)
      | Inr cleaned \<Rightarrow>
         (let rangedPosition = fst (applyRanges (v_config v) (v_prop v) cleaned)
          in (None, v\<lparr> v_prop := (v_prop v)\<lparr> viewPosition := rangedPosition \<rparr> \<rparr>)))"

definition extended :: "position \<Rightarrow> ext_position" where
  "extended pos = \<lparr> e_x = None, e_y = None,
                     e_longitude = Some (AngleNumber (longitude pos)),
                     e_latitude = Some (AngleNumber (latitude pos)) \<rparr>"

text \<open>The callback \<open>done\<close> of \<open>setPanorama\<close>.\<close>

definition doneLoading :: "viewer \<Rightarrow> viewer" where
  "doneLoading v = v\<lparr> loaderVisible := False, rendererVisible := True,
               v_prop := (v_prop v)\<lparr> loadingPromise := None \<rparr> \<rparr>"

text \<open>
  \<open>setPanorama\<close> returns the error thrown, if any, and the viewer as the call leaves it.
\<close>

definition setPanorama ::
  "utils \<Rightarrow> viewer \<Rightarrow> string \<Rightarrow> position_arg \<Rightarrow> bool \<Rightarrow> error option \<times> viewer" where
  "setPanorama U v path positionArg transitionArg =
     (if loadingPromise (v_prop v) \<noteq> None
      then (Some (PSVError ''Loading already in progress''), v)
      else
        (let transitionFlag = (case positionArg of PositionBoolean b \<Rightarrow> b | _ \<Rightarrow> transitionArg);
             cleaned = (case positionArg of
                          PositionObject ep \<Rightarrow> map_sum id Some (cleanPosition U (v_prop v) ep)
                        | _ \<Rightarrow> Inr None)
         in case cleaned of
              Inl e \<Rightarrow> (Some e, v)
            | Inr cleanedPosition \<Rightarrow>
               (let v1 = v\<lparr> v_config := (v_config v)\<lparr> panorama := Some path \<rparr> \<rparr>
                in if \<not> transitionFlag \<or> transition (v_config v1) = None \<or> \<not> ready (v_prop v1)
                   then (None, v1\<lparr> loaderVisible := True, rendererVisible := False,
                                   requested := requested v1 @ [path],
                                   v_prop := (v_prop v1)
                                     \<lparr> loadingPromise := Some (Loading cleanedPosition False) \<rparr> \<rparr>)
                   else (None, v1\<lparr> loaderVisible :=
                                     (case transition (v_config v1) of
                                        Some t \<Rightarrow> (if loader t then True else loaderVisible v1)
                                      | None \<Rightarrow> loaderVisible v1),
                                   requested := requested v1 @ [path],
                                   v_prop := (v_prop v1)
                                     \<lparr> loadingPromise := Some (Loading cleanedPosition True) \<rparr> \<rparr>))))"

text \<open>
  The events that move a pending chain: the texture loader resolves or rejects, the
  transition promise settles. Every rejection is caught and logged, and \<open>done\<close> runs on
  both outcomes. \<open>settles\<close> tells the events that complete the chain.
\<close>

datatype load_event = TextureLoaded string | TextureFailed | TransitionSettled

definition loadEvent :: "utils \<Rightarrow> viewer \<Rightarrow> load_event \<Rightarrow> viewer" where
  "loadEvent U v ev =
     (case (loadingPromise (v_prop v), ev) of
        (Some (Loading cleanedPosition False), TextureLoaded t) \<Rightarrow>
          (let v1 = v\<lparr> texture := Some t \<rparr>;
               v2 = (case cleanedPosition of
                       None \<Rightarrow> v1
                     | Some pos \<Rightarrow> snd (rotate U v1 (extended pos)))
           in doneLoading v2)
      | (Some (Loading cleanedPosition True), TextureLoaded t) \<Rightarrow>
          v\<lparr> loaderVisible := False,
             v_prop := (v_prop v)\<lparr> loadingPromise := Some Transitioning \<rparr> \<rparr>
      | (Some (Loading cleanedPosition withTransition), TextureFailed) \<Rightarrow> doneLoading v
      | (Some Transitioning, TransitionSettled) \<Rightarrow> doneLoading v
      | _ \<Rightarrow> v)"

definition settles :: "loading \<Rightarrow> load_event \<Rightarrow> bool" where
  "settles stage ev =
     (case (stage, ev) of
        (Loading cleanedPosition False, TextureLoaded t) \<Rightarrow> True
      | (Loading cleanedPosition withTransition, TextureFailed) \<Rightarrow> True
      | (Transitioning, TransitionSettled) \<Rightarrow> True
      | _ \<Rightarrow> False)"

subsection \<open>Example data\<close>

text \<open>A 3000 x 1500 crop at offset (500, 250) of a 4000 x 2000 equirectangular image.\<close>

definition examplePanorama :: psv_prop where
  "examplePanorama =
     \<lparr> isCubemap = False,
       pano = \<lparr> fullWidth = 4000, fullHeight = 2000, croppedWidth = 3000,
                croppedHeight = 1500, croppedX = 500, croppedY = 250 \<rparr>,
       vFov = 60, hFov = 90 \<rparr>"

text \<open>A field of the target is kept unless the source has it too.\<close>

definition override :: "'a option \<Rightarrow> 'a option \<Rightarrow> 'a option" where
  "override old new = (case new of None \<Rightarrow> old | Some v \<Rightarrow> Some v)"

definition mergeTooltip :: "tooltip_config option \<Rightarrow> tooltip_config option \<Rightarrow> tooltip_config option" where
  "mergeTooltip old new =
     (case (old, new) of
        (Some (TooltipObject c1 p1), Some (TooltipObject c2 p2)) \<Rightarrow>
          Some (TooltipObject c2 (override p1 p2))
      | _ \<Rightarrow> override old new)"

text \<open>
  Modelled from the spec: an instance of \<open>deepmerge\<close> on marker configurations. The spec
  says that \<open>update\<close> ``merges into existing configuration (deep-merge, existing fields
  retained unless overwritten)''.
\<close>

definition deepmergeConfig :: "marker_config \<Rightarrow> marker_config \<Rightarrow> marker_config" where
  "deepmergeConfig target src =
     \<lparr> c_id = override (c_id target) (c_id src),
       c_x = override (c_x target) (c_x src),
       c_y = override (c_y target) (c_y src),
       c_longitude = override (c_longitude target) (c_longitude src),
       c_latitude = override (c_latitude target) (c_latitude src),
       c_image = override (c_image target) (c_image src),
       c_html = override (c_html target) (c_html src),
       c_width = override (c_width target) (c_width src),
       c_height = override (c_height target) (c_height src),
       c_square = override (c_square target) (c_square src),
       c_rect = override (c_rect target) (c_rect src),
       c_circle = override (c_circle target) (c_circle src),
       c_ellipse = override (c_ellipse target) (c_ellipse src),
       c_path = override (c_path target) (c_path src),
       c_polygonPx = override (c_polygonPx target) (c_polygonPx src),
       c_polygonRad = override (c_polygonRad target) (c_polygonRad src),
       c_polylinePx = override (c_polylinePx target) (c_polylinePx src),
       c_polylineRad = override (c_polylineRad target) (c_polylineRad src),
       c_visible = override (c_visible target) (c_visible src),
       c_tooltip = mergeTooltip (c_tooltip target) (c_tooltip src),
       c_anchor = override (c_anchor target) (c_anchor src) \<rparr>"

text \<open>
  An instance of the helpers, used to run the model on concrete markers: it merges as
  above, places the anchor at the centre, and its \<open>parseAngle\<close> throws a \<open>PSVError\<close> on
  every argument that is not a number.
\<close>

definition strictUtils :: utils where
  "strictUtils = \<lparr> deepmerge = deepmergeConfig,
                   parsePosition = (\<lambda>anchor. \<lparr> px = 1 / 2, py = 1 / 2 \<rparr>),
                   parseAngleOther = (\<lambda>a zeroCenter. Inl (PSVError ''unknown angle'')) \<rparr>"

definition hiddenMarker :: marker where
  "hiddenMarker =
     \<lparr> m_id = ''m1'', m_type = Html, m_visible = False,
       m_config = emptyConfig\<lparr> c_id := Some ''m1'', c_html := Some ''Hello'',
                               c_longitude := Some (AngleNumber 0),
                               c_latitude := Some (AngleNumber 0) \<rparr>,
       m_props = initialProps \<rparr>"

definition tooltipOnly :: marker_config where
  "tooltipOnly = emptyConfig\<lparr> c_id := Some ''m1'', c_tooltip := Some (TooltipString ''Hi'') \<rparr>"

definition squareWithoutPosition :: marker_config where
  "squareWithoutPosition = emptyConfig\<lparr> c_id := Some ''s1'', c_square := Some 10 \<rparr>"

definition imageOnly :: marker_config where
  "imageOnly = emptyConfig\<lparr> c_id := Some ''m1'', c_image := Some ''pin.png'',
                             c_width := Some 32, c_height := Some 32 \<rparr>"

text \<open>
  A camera looking along the positive z axis and a polygon whose three vertices lie behind
  it or on the boundary of the visible half sphere.
\<close>

definition exampleEnv :: hud_env where
  "exampleEnv = \<lparr> SPHERE_RADIUS = 100, direction = \<lparr> vx = 0, vy = 0, vz = 100 \<rparr>,
                  size_width = 800, size_height = 600,
                  project = (\<lambda>vector. vector),
                  applyAxisAngle = (\<lambda>vector axis angle. vector),
                  getBoundingClientRect = (\<lambda>m. (0, 0)) \<rparr>"

definition behindCamera :: marker where
  "behindCamera =
     \<lparr> m_id = ''p1'', m_type = PolygonRad, m_visible = True,
       m_config = emptyConfig\<lparr> c_id := Some ''p1'' \<rparr>,
       m_props = initialProps\<lparr> positions3D :=
         Some [\<lparr> vx = 0, vy = 0, vz = - 100 \<rparr>, \<lparr> vx = 60, vy = 0, vz = - 80 \<rparr>,
               \<lparr> vx = 0, vy = 100, vz = 0 \<rparr>] \<rparr> \<rparr>"

text \<open>A viewer that is ready and idle, without transition.\<close>

definition idleViewer :: viewer where
  "idleViewer =
     \<lparr> v_config = \<lparr> minFov = 30, maxFov = 90, longitudeRange = None, latitudeRange = None,
                     panorama = None, transition = None \<rparr>,
       v_prop = \<lparr> isCubemap = False,
                  pano = \<lparr> fullWidth = 4000, fullHeight = 2000, croppedWidth = 4000,
                           croppedHeight = 2000, croppedX = 0, croppedY = 0 \<rparr>,
                  vFov = 60, hFov = 90, ready = True,
                  viewPosition = \<lparr> longitude = 0, latitude = 0 \<rparr>, loadingPromise = None \<rparr>,
       loaderVisible = False, rendererVisible = True, requested = [], texture = None \<rparr>"

text \<open>A HUD that holds the marker \<open>hiddenMarker\<close> before it is hidden.\<close>

definition exampleHud :: hud where
  "exampleHud = \<lparr> markers = [(''m1'', hiddenMarker\<lparr> m_visible := True \<rparr>)], hud_visible = True \<rparr>"

text \<open>The idle viewer after a first call of \<open>setPanorama\<close>.\<close>

definition loadingViewer :: viewer where
  "loadingViewer = snd (setPanorama strictUtils idleViewer ''a.jpg'' PositionUndefined False)"

subsection \<open>Properties of the converters\<close>

lemma Math_round_of_int: "Math_round (of_int n) = of_int n"
  by (simp add: Math_round_def)

lemma Math_round_Ints: "x \<in> \<int> \<Longrightarrow> Math_round x = x"
  by (auto simp: Ints_def Math_round_of_int)

text \<open>
  C9. On every integer zoom level between 0 and 100, and whenever the two configured
  bounds of the field of view differ, \<open>fovToZoomLevel\<close> undoes \<open>zoomLevelToFov\<close>.
\<close>

theorem fovToZoomLevel_zoomLevelToFov:
  assumes "minFov config \<noteq> maxFov config" and "0 \<le> L" and "L \<le> 100"
  shows "fovToZoomLevel config (zoomLevelToFov config (of_int L)) = of_int L"
proof -
  let ?d = "maxFov config - minFov config"
  have d: "?d \<noteq> 0" using assms(1) by simp
  have "zoomLevelToFov config (of_int L) - minFov config = ?d * (1 - of_int L / 100)"
    by (simp add: zoomLevelToFov_def field_simps)
  then have "(zoomLevelToFov config (of_int L) - minFov config) / ?d * 100 = of_int (100 - L)"
    using d by simp
  then have "Math_round ((zoomLevelToFov config (of_int L) - minFov config) / ?d * 100)
               = of_int (100 - L)"
    by (simp only: Math_round_of_int)
  then show ?thesis
    by (simp add: fovToZoomLevel_def Let_def)
qed

theorem fovToZoomLevel_zoomLevelToFov_witness:
  "(30::real) \<noteq> 90 \<and> (0::int) \<le> 25 \<and> (25::int) \<le> 100 \<and>
   fovToZoomLevel \<lparr> minFov = 30, maxFov = 90, longitudeRange = None, latitudeRange = None \<rparr>
     (zoomLevelToFov \<lparr> minFov = 30, maxFov = 90, longitudeRange = None, latitudeRange = None \<rparr>
        (of_int 25)) = of_int 25"
  using fovToZoomLevel_zoomLevelToFov
          [of "\<lparr> minFov = 30, maxFov = 90, longitudeRange = None, latitudeRange = None \<rparr>" 25]
  by simp

lemma fullSize_pos:
  "validPanoData d \<Longrightarrow> inCropRect d p \<Longrightarrow> 0 < fullWidth d \<and> 0 < fullHeight d"
  by (auto simp: validPanoData_def inCropRect_def)

lemma scale_lt_2pi: "t < 1 \<Longrightarrow> t * pi * 2 < 2 * pi" for t :: real
  by simp

lemma scale_ge_0: "0 \<le> t \<Longrightarrow> 0 \<le> t * pi * 2" for t :: real
  by simp

text \<open>
  C1. When the panorama is not a cubemap, every integer pixel point within the crop
  rectangle is returned unchanged by \<open>textureCoordsToSphericalCoords\<close> followed by
  \<open>sphericalCoordsToTextureCoords\<close>.
\<close>

theorem textureCoords_roundtrip:
  assumes "\<not> isCubemap prop" and "validPanoData (pano prop)" and "inCropRect (pano prop) p"
  shows "(case textureCoordsToSphericalCoords prop p of
            Inl e \<Rightarrow> Inl e
          | Inr pos \<Rightarrow> sphericalCoordsToTextureCoords prop pos) = Inr p"
proof -
  let ?d = "pano prop"
  let ?W = "fullWidth ?d" and ?H = "fullHeight ?d"
  let ?X = "px p + croppedX ?d" and ?Y = "py p + croppedY ?d"
  have W: "0 < ?W" and H: "0 < ?H" using fullSize_pos[OF assms(2,3)] by auto
  have XZ: "?X \<in> \<int>" and YZ: "?Y \<in> \<int>"
    using assms(2,3) by (auto simp: validPanoData_def inCropRect_def)
  have X0: "0 \<le> ?X" and XW: "?X < ?W"
    using assms(2,3) by (auto simp: validPanoData_def inCropRect_def)
  let ?rx = "?X / ?W * pi * 2"
  let ?lo = "if ?rx \<ge> pi then ?rx - pi else ?rx + pi"
  have t1: "?X / ?W < 1" and t0: "0 \<le> ?X / ?W" using XW X0 W by simp_all
  have rx2: "?rx < 2 * pi" using t1 by (rule scale_lt_2pi)
  have rx0: "0 \<le> ?rx" using t0 by (rule scale_ge_0)
  have A: "(if ?lo < pi then ?lo / pi / 2 * ?W + ?W / 2 else ?lo / pi / 2 * ?W - ?W / 2) = ?X"
  proof (cases "?rx \<ge> pi")
    case True
    then have "?lo = ?rx - pi" by simp
    moreover have "?rx - pi < pi" using rx2 by simp
    moreover have "(?rx - pi) / pi / 2 * ?W + ?W / 2 = ?X" using W by (simp add: field_simps)
    ultimately show ?thesis by simp
  next
    case False
    then have "?lo = ?rx + pi" by simp
    moreover have "\<not> ?rx + pi < pi" using rx0 by simp
    moreover have "(?rx + pi) / pi / 2 * ?W - ?W / 2 = ?X" using W by (simp add: field_simps)
    ultimately show ?thesis by simp
  qed
  let ?la = "pi / 2 - ?Y / ?H * pi"
  have B: "?H / 2 - ?la / pi * ?H = ?Y" using H by (simp add: field_simps)
  have 1: "textureCoordsToSphericalCoords prop p = Inr \<lparr>longitude = ?lo, latitude = ?la\<rparr>"
    using assms(1) by (simp add: textureCoordsToSphericalCoords_def Let_def)
  have "sphericalCoordsToTextureCoords prop \<lparr>longitude = ?lo, latitude = ?la\<rparr> =
          Inr \<lparr>px = Math_round (if ?lo < pi then ?lo / pi / 2 * ?W + ?W / 2
                                   else ?lo / pi / 2 * ?W - ?W / 2) - croppedX ?d,
                py = Math_round (?H / 2 - ?la / pi * ?H) - croppedY ?d\<rparr>"
    using assms(1) unfolding sphericalCoordsToTextureCoords_def Let_def
    by (simp only: if_False position.simps)
  also have "\<dots> = Inr \<lparr>px = Math_round ?X - croppedX ?d, py = Math_round ?Y - croppedY ?d\<rparr>"
    by (simp only: A B)
  also have "\<dots> = Inr p"
    by (simp add: Math_round_Ints[OF XZ] Math_round_Ints[OF YZ])
  finally show ?thesis
    by (simp only: 1 sum.case)
qed

theorem textureCoords_roundtrip_witness:
  "\<not> isCubemap examplePanorama \<and> validPanoData (pano examplePanorama) \<and>
   inCropRect (pano examplePanorama) \<lparr> px = 2999, py = 0 \<rparr> \<and>
   (case textureCoordsToSphericalCoords examplePanorama \<lparr> px = 2999, py = 0 \<rparr> of
      Inl e \<Rightarrow> Inl e
    | Inr pos \<Rightarrow> sphericalCoordsToTextureCoords examplePanorama pos) = Inr \<lparr> px = 2999, py = 0 \<rparr>"
proof -
  have h1: "\<not> isCubemap examplePanorama" by (simp add: examplePanorama_def)
  have h2: "validPanoData (pano examplePanorama)"
    by (simp add: examplePanorama_def validPanoData_def)
  have h3: "inCropRect (pano examplePanorama) \<lparr> px = 2999, py = 0 \<rparr>"
    by (simp add: examplePanorama_def inCropRect_def)
  show ?thesis using h1 h2 h3 textureCoords_roundtrip[OF h1 h2 h3] by simp
qed

text \<open>
  The right edge is excluded: in an uncropped 4000 x 2000 panorama the point \<open>(4000, 0)\<close>,
  one pixel past the last column, comes back as \<open>(0, 0)\<close>.
\<close>

lemma textureCoords_right_edge:
  "(case textureCoordsToSphericalCoords (v_prop idleViewer) \<lparr> px = 4000, py = 0 \<rparr> of
      Inl e \<Rightarrow> Inl e
    | Inr pos \<Rightarrow> sphericalCoordsToTextureCoords (v_prop idleViewer) pos) = Inr \<lparr> px = 0, py = 0 \<rparr>"
  by (simp add: textureCoordsToSphericalCoords_def sphericalCoordsToTextureCoords_def
      idleViewer_def Let_def Math_round_def)

subsection \<open>Properties of the vector conversions\<close>

lemma atan2_cos_sin:
  assumes "x \<noteq> 0 \<or> y \<noteq> 0"
  shows "cos (Math_atan2 y x) = x / sqrt (x * x + y * y) \<and> sin (Math_atan2 y x) = y / sqrt (x * x + y * y)"
proof -
  consider (pos) "0 < x" | (neg) "x < 0" | (zp) "x = 0" "0 < y" | (zn) "x = 0" "y < 0"
    using assms by fastforce
  then show ?thesis
  proof cases
    case pos
    have s: "sqrt (1 + (y / x)\<^sup>2) = sqrt (x * x + y * y) / x"
    proof -
      have "1 + (y / x)\<^sup>2 = (x * x + y * y) / (x * x)" using pos by (simp add: field_simps power2_eq_square)
      then have "sqrt (1 + (y / x)\<^sup>2) = sqrt (x * x + y * y) / sqrt (x * x)" by (simp add: real_sqrt_divide)
      then show ?thesis using pos by simp
    qed
    have "x * x + y * y \<noteq> 0" using pos by (simp add: add_nonneg_eq_0_iff)
    then have r: "sqrt (x * x + y * y) \<noteq> 0" by simp
    show ?thesis using pos s r by (simp add: Math_atan2_def cos_arctan sin_arctan field_simps)
  next
    case neg
    have s: "sqrt (1 + (y / x)\<^sup>2) = sqrt (x * x + y * y) / (- x)"
    proof -
      have "1 + (y / x)\<^sup>2 = (x * x + y * y) / (x * x)" using neg by (simp add: field_simps power2_eq_square)
      then have "sqrt (1 + (y / x)\<^sup>2) = sqrt (x * x + y * y) / sqrt (x * x)" by (simp add: real_sqrt_divide)
      then show ?thesis using neg by simp
    qed
    have "x * x + y * y \<noteq> 0" using neg by (simp add: add_nonneg_eq_0_iff)
    then have r: "sqrt (x * x + y * y) \<noteq> 0" by simp
    show ?thesis using neg s r by (simp add: Math_atan2_def cos_arctan sin_arctan field_simps)
  next
    case zp
    then show ?thesis by (simp add: Math_atan2_def)
  next
    case zn
    then show ?thesis by (simp add: Math_atan2_def)
  qed
qed


lemma longitude_sin_cos:
  "sin (if t < 0 then - t else pi * 2 - t) = - sin t \<and> cos (if t < 0 then - t else pi * 2 - t) = cos t"
proof -
  have "sin (pi * 2 - t) = - sin t" using sin_periodic[of "- t"] by (simp add: mult.commute)
  moreover have "cos (pi * 2 - t) = cos t" using cos_periodic[of "- t"] by (simp add: mult.commute)
  ultimately show ?thesis by simp
qed

lemma vector3_roundtrip_scaled:
  assumes "vlength v \<noteq> 0"
  shows "sphericalCoordsToVector3 R (vector3ToSphericalCoords v) = multiplyScalar v (R / vlength v)"
proof -
  let ?x = "vx v" and ?y = "vy v" and ?z = "vz v"
  let ?n = "sqrt (?x * ?x + ?y * ?y + ?z * ?z)"
  let ?h = "sqrt (?z * ?z + ?x * ?x)"
  have n: "?n = vlength v" by (simp add: vlength_def)
  have nn: "0 \<le> ?x * ?x + ?y * ?y + ?z * ?z" by simp
  have "0 \<le> ?n" using nn by simp
  then have npos: "0 < ?n" using assms n by linarith
  have sq: "?n * ?n = ?x * ?x + ?y * ?y + ?z * ?z"
    using nn by simp
  have yn: "\<bar>?y / ?n\<bar> \<le> 1"
  proof -
    have "sqrt (?y * ?y) \<le> ?n" by (rule real_sqrt_le_mono) simp
    then have "\<bar>?y\<bar> \<le> ?n" by simp
    then show ?thesis using npos by simp
  qed
  let ?phi = "arccos (?y / ?n)"
  let ?theta = "Math_atan2 ?x ?z"
  let ?long = "if ?theta < 0 then - ?theta else pi * 2 - ?theta"
  have slat: "sin (pi / 2 - ?phi) = ?y / ?n"
    using yn by (simp add: sin_diff cos_arccos_abs)
  have "1 - (?y / ?n)\<^sup>2 = (?z * ?z + ?x * ?x) / (?n * ?n)"
    using npos sq by (simp add: field_simps power2_eq_square)
  then have "sqrt (1 - (?y / ?n)\<^sup>2) = ?h / ?n"
    using npos by (simp add: real_sqrt_divide)
  then have clat: "cos (pi / 2 - ?phi) = ?h / ?n"
    using yn by (simp add: cos_diff sin_arccos_abs)
  have hx: "?h * sin ?theta = ?x \<and> ?h * cos ?theta = ?z"
  proof (cases "?z \<noteq> 0 \<or> ?x \<noteq> 0")
    case True
    have "?z * ?z + ?x * ?x \<noteq> 0" using True by (simp add: add_nonneg_eq_0_iff)
    then have "?h \<noteq> 0" by simp
    then show ?thesis using atan2_cos_sin[OF True] by simp
  next
    case False
    then show ?thesis by simp
  qed
  have slong: "sin ?long = - sin ?theta" and clong: "cos ?long = cos ?theta"
    using longitude_sin_cos[of ?theta] by blast+
  have X: "R * - cos (pi / 2 - ?phi) * sin ?long = ?x * (R / ?n)"
    unfolding clat slong using hx npos by (simp add: field_simps)
  have Y: "R * sin (pi / 2 - ?phi) = ?y * (R / ?n)"
    unfolding slat by simp
  have Z: "R * cos (pi / 2 - ?phi) * cos ?long = ?z * (R / ?n)"
    unfolding clat clong using hx npos by (simp add: field_simps)
  show ?thesis
    unfolding sphericalCoordsToVector3_def vector3ToSphericalCoords_def Let_def multiplyScalar_def
      position.simps n[symmetric]
    using X Y Z by (simp only:)
qed

text \<open>
  C3 (as amended). For every unit vector \<open>v\<close>, \<open>vector3ToSphericalCoords\<close> followed by
  \<open>sphericalCoordsToVector3\<close> yields \<open>v\<close> scaled by \<open>SPHERE_RADIUS\<close>, exactly.
\<close>

theorem vector3_roundtrip_unit:
  assumes "vlength v = 1"
  shows "sphericalCoordsToVector3 R (vector3ToSphericalCoords v) = multiplyScalar v R"
  using vector3_roundtrip_scaled[of v R] assms by simp

theorem vector3_roundtrip_unit_witness:
  "vlength \<lparr> vx = 0, vy = 1, vz = 0 \<rparr> = 1 \<and>
   sphericalCoordsToVector3 100 (vector3ToSphericalCoords \<lparr> vx = 0, vy = 1, vz = 0 \<rparr>)
     = \<lparr> vx = 0, vy = 100, vz = 0 \<rparr>"
proof -
  have h: "vlength \<lparr> vx = 0, vy = 1, vz = 0 \<rparr> = 1" by (simp add: vlength_def)
  show ?thesis
    using h vector3_roundtrip_unit[OF h, of 100] by (simp add: multiplyScalar_def)
qed

text \<open>
  The claim as stated (the result is within \<open>1e-6\<close> of \<open>v\<close> itself) fails as soon as the
  radius is not 1: with radius 100 the unit vector \<open>(0, 1, 0)\<close> comes back as
  \<open>(0, 100, 0)\<close>.
\<close>

theorem vector3_roundtrip_counterexample:
  "vlength \<lparr> vx = 0, vy = 1, vz = 0 \<rparr> = 1 \<and>
   \<not> approxEq (1 / 10 ^ 6)
         (sphericalCoordsToVector3 100 (vector3ToSphericalCoords \<lparr> vx = 0, vy = 1, vz = 0 \<rparr>))
         \<lparr> vx = 0, vy = 1, vz = 0 \<rparr>"
  by (simp add: vlength_def approxEq_def sphericalCoordsToVector3_def
        vector3ToSphericalCoords_def Math_atan2_def)

subsection \<open>Properties of the range solver\<close>

lemma parseAngle_wrap_neg:
  assumes "- 2 * pi \<le> a" and "a < 0"
  shows "parseAngle a False = a + 2 * pi"
proof -
  have "\<lfloor>a / (2 * pi)\<rfloor> = - 1"
  proof (rule floor_unique)
    show "of_int (- 1) \<le> a / (2 * pi)" using assms by (simp add: field_simps)
    show "a / (2 * pi) < of_int (- 1) + 1" using assms by (simp add: field_simps)
  qed
  then show ?thesis by (simp add: parseAngle_def)
qed

lemma parseAngle_wrap_id:
  assumes "0 \<le> a" and "a < 2 * pi"
  shows "parseAngle a False = a"
proof -
  have "\<lfloor>a / (2 * pi)\<rfloor> = 0"
  proof (rule floor_unique)
    show "of_int 0 \<le> a / (2 * pi)" using assms by simp
    show "a / (2 * pi) < of_int 0 + 1" using assms by (simp add: field_simps)
  qed
  then show ?thesis by (simp add: parseAngle_def)
qed

lemma parseAngle_latitude_mono: "a \<le> b \<Longrightarrow> parseAngle a True \<le> parseAngle b True"
  by (auto simp: parseAngle_def max_def min_def)

lemma parseAngle_latitude_idem: "parseAngle (parseAngle a True) True = parseAngle a True"
proof -
  have "\<not> pi \<le> 0" using pi_gt_zero by linarith
  then show ?thesis unfolding parseAngle_def by (simp add: max_def min_def)
qed

lemma shrinkLongitudeRange_example:
  "shrinkLongitudeRange (- 1, 1) (radToDeg (2 / 5)) = (2 * pi - 4 / 5, 4 / 5)"
proof -
  have o: "degToRad (radToDeg (2 / 5)) / 2 = 1 / 5" by (simp add: degToRad_def radToDeg_def)
  have p2: "2 \<le> pi" by (rule pi_ge_two)
  have 1: "parseAngle (- 1 + 1 / 5) False = 2 * pi - 4 / 5"
    using parseAngle_wrap_neg[of "- 1 + 1 / 5"] p2 by simp
  have 2: "parseAngle (1 - 1 / 5) False = 4 / 5"
    using parseAngle_wrap_id[of "1 - 1 / 5"] p2 by simp
  show ?thesis
    unfolding shrinkLongitudeRange_def Let_def fst_conv snd_conv o 1 2 ..
qed

text \<open>
  C2. With \<open>longitudeRange = [-1, 1]\<close>, no latitude range and a horizontal field of view
  of 0.4 radians, the candidate longitude 1.5 is clamped to 0.8 and \<open>sidesReached\<close> is
  exactly \<open>['right']\<close>; the latitude is returned as it came.
\<close>

theorem applyRanges_example:
  "applyRanges (config\<lparr> longitudeRange := Some (- 1, 1), latitudeRange := None \<rparr>)
     (prop\<lparr> hFov := radToDeg (2 / 5) \<rparr>)
     \<lparr> longitude = 3 / 2, latitude = lat \<rparr>
   = (\<lparr> longitude = 4 / 5, latitude = lat \<rparr>, [''right''])"
proof -
  have p2: "2 \<le> pi" by (rule pi_ge_two)
  have "applyLongitudeRange (- 1, 1) (radToDeg (2 / 5)) (3 / 2) = (4 / 5, [''right''])"
  proof -
    have a1: "2 * pi - 4 / 5 > 4 / 5" using p2 by linarith
    have a2: "(3::real) / 2 > 4 / 5" by simp
    have a3: "3 / 2 < 2 * pi - 4 / 5" using p2 by linarith
    have "(2 * pi - 4 / 5) / 2 + (4 / 5) / 2 = pi" by (simp add: field_simps)
    then have a4: "\<not> 3 / 2 > ((2 * pi - 4 / 5) / 2 + (4 / 5) / 2)" using p2 by linarith
    show ?thesis
      unfolding applyLongitudeRange_def shrinkLongitudeRange_example
      by (simp only: Let_def prod.case a1 a2 a3 a4 if_True if_False simp_thms)
  qed
  then show ?thesis by (simp add: applyRanges_def)
qed

lemma shrinkLatitudeRange_ordered:
  "fst (shrinkLatitudeRange rng vfov) \<le> snd (shrinkLatitudeRange rng vfov)"
proof -
  let ?r0 = "parseAngle (min (fst rng + degToRad vfov / 2) (snd rng)) True"
  have "?r0 = parseAngle ?r0 True" by (simp only: parseAngle_latitude_idem)
  also have "\<dots> \<le> parseAngle (max (snd rng - degToRad vfov / 2) ?r0) True"
    by (rule parseAngle_latitude_mono) simp
  finally show ?thesis by (simp add: shrinkLatitudeRange_def Let_def)
qed

text \<open>The latitude that \<open>applyRanges\<close> returns lies between the two bounds.\<close>

lemma applyRanges_latitude_within:
  assumes "latitudeRange config = Some rng"
  shows "fst (shrinkLatitudeRange rng (vFov prop))
           \<le> latitude (fst (applyRanges config prop pos))
       \<and> latitude (fst (applyRanges config prop pos))
           \<le> snd (shrinkLatitudeRange rng (vFov prop))"
proof -
  have "latitude (fst (applyRanges config prop pos))
          = fst (applyLatitudeRange rng (vFov prop) (latitude pos))"
    using assms by (simp add: applyRanges_def split: prod.splits option.splits)
  then show ?thesis
    using shrinkLatitudeRange_ordered[of rng "vFov prop"]
    by (auto simp: applyLatitudeRange_def split: prod.splits)
qed

text \<open>
  C4. For a configured latitude range whose lower bound does not exceed the upper one,
  and for every vertical field of view, the two bounds the solver compares the latitude
  with never cross.
\<close>

theorem shrinkLatitudeRange_never_cross:
  assumes "lo \<le> hi"
  shows "fst (shrinkLatitudeRange (lo, hi) vfov) \<le> snd (shrinkLatitudeRange (lo, hi) vfov)"
  using shrinkLatitudeRange_ordered[of "(lo, hi)" vfov] by simp

theorem shrinkLatitudeRange_never_cross_witness:
  "(0::real) \<le> 1 / 18 \<and>
   fst (shrinkLatitudeRange (0, 1 / 18) 60) \<le> snd (shrinkLatitudeRange (0, 1 / 18) 60)"
  using shrinkLatitudeRange_never_cross[of 0 "1 / 18" 60] by simp

subsection \<open>Properties of marker updates\<close>

lemma MARKER_TYPES_all: "t \<in> set MARKER_TYPES"
  by (cases t) (simp_all add: MARKER_TYPES_def)

lemma MARKER_TYPES_distinct: "distinct MARKER_TYPES"
  by (simp add: MARKER_TYPES_def)

lemma getType_required: "getType properties False \<noteq> Inr None"
  by (auto simp: getType_def Let_def split: list.splits)

lemma getType_foreign:
  assumes "hasKey t properties" and "t \<noteq> ty"
  shows "getType properties True = Inl (PSVError ''multiple marker content'')
         \<or> getType properties True = Inr (Some t)"
proof -
  let ?found = "filter (\<lambda>t. hasKey t properties) MARKER_TYPES"
  have mem: "t \<in> set ?found" using assms(1) MARKER_TYPES_all by simp
  show ?thesis
  proof (cases ?found)
    case Nil
    then show ?thesis using mem by simp
  next
    case (Cons a rest)
    show ?thesis
    proof (cases rest)
      case Nil
      then have "?found = [t]" using Cons mem by simp
      then show ?thesis by (simp add: getType_def)
    next
      case (Cons b rest')
      then have "length ?found > 1" using \<open>?found = a # rest\<close> by simp
      then show ?thesis by (simp add: getType_def Let_def)
    qed
  qed
qed

text \<open>
  C6. When the new properties of an update carry a content kind other than the marker's
  type, the update throws a \<open>PSVError\<close> (``cannot change marker type'', or ``multiple
  marker content'' when they carry more than one kind) and the marker is left exactly as it
  was: configuration, type, visibility and derived properties.
\<close>

theorem update_type_change:
  assumes "hasKey t properties" and "t \<noteq> m_type m"
  shows "update U R prop m (NewProperties properties)
           = (Some (PSVError ''cannot change marker type''), m)
         \<or> update U R prop m (NewProperties properties)
           = (Some (PSVError ''multiple marker content''), m)"
  using getType_foreign[OF assms]
  by (auto simp: update_def mergeProperties_def assms(2))

theorem update_type_change_witness:
  "hasKey Image imageOnly \<and> Image \<noteq> m_type hiddenMarker
   \<and> update strictUtils 100 examplePanorama hiddenMarker (NewProperties imageOnly)
        = (Some (PSVError ''cannot change marker type''), hiddenMarker)"
proof -
  have 1: "hasKey Image imageOnly" by (simp add: imageOnly_def emptyConfig_def)
  have 2: "Image \<noteq> m_type hiddenMarker" by (simp add: hiddenMarker_def)
  have 3: "getType imageOnly True = Inr (Some Image)"
    by (simp add: getType_def MARKER_TYPES_def imageOnly_def emptyConfig_def)
  show ?thesis
    using 1 2 update_type_change[OF 1 2, of strictUtils 100 examplePanorama] 3
    by (simp add: update_def mergeProperties_def)
qed

lemma updateNormal_visible: "m_visible (snd (updateNormal U R prop m)) = m_visible m"
  by (simp add: updateNormal_def Let_def setPosition_def split: option.splits sum.splits)

lemma updateSvg_visible: "m_visible (snd (updateSvg U R prop m)) = m_visible m"
  by (simp add: updateSvg_def Let_def setPosition_def split: option.splits sum.splits)

lemma updatePoly_visible: "m_visible (snd (updatePoly U R prop m)) = m_visible m"
  by (simp add: updatePoly_def Let_def split: option.splits sum.splits list.splits prod.splits)


lemma update_visible:
  "m_visible (snd (update U R prop m (NewProperties properties)))
     = (case fst (mergeProperties U m (NewProperties properties)) of
          Some e \<Rightarrow> m_visible m
        | None \<Rightarrow> c_visible properties \<noteq> Some False)"
  by (simp add: update_def mergeProperties_def Let_def updateNormal_visible updateSvg_visible
        updatePoly_visible split: sum.splits)

text \<open>\<open>hideMarker\<close> clears the flag, and the pass that follows reports the marker hidden.\<close>

lemma hideMarker_example:
  "hideMarker exampleEnv exampleHud ''m1''
     = Inr (\<lparr> markers = [(''m1'', hiddenMarker)], hud_visible = True \<rparr>, [(''m1'', False)])"
  by (simp add: hideMarker_def getMarker_def exampleHud_def renderMarkers_def renderMarker_def
      hiddenMarker_def)

text \<open>
  C10 (as amended). After every successful update called with a properties object other
  than the marker's own configuration object, and which does not set \<open>visible\<close> to
  \<open>false\<close>, the marker's \<open>visible\<close> flag is true, also when the marker was hidden before.
\<close>

theorem update_shows_marker:
  assumes "update U R prop m (NewProperties properties) = (None, m')"
    and "c_visible properties \<noteq> Some False"
  shows "m_visible m'"
proof -
  have "fst (mergeProperties U m (NewProperties properties)) = None"
    using assms(1) by (auto simp: update_def split: prod.splits option.splits)
  then have "m_visible (snd (update U R prop m (NewProperties properties)))"
    using assms(2) by (simp add: update_visible)
  then show ?thesis using assms(1) by simp
qed

lemma parseAngle_zero: "parseAngle 0 zeroCenter = 0"
proof -
  have "\<not> pi \<le> 0" using pi_gt_zero by linarith
  then show ?thesis by (simp add: parseAngle_def max_def min_def)
qed

lemma update_tooltipOnly_succeeds: "fst (update strictUtils 100 examplePanorama hiddenMarker (NewProperties tooltipOnly)) = None"
  by (simp add: update_def mergeProperties_def getType_def MARKER_TYPES_def tooltipOnly_def
      emptyConfig_def hiddenMarker_def strictUtils_def deepmergeConfig_def override_def mergeTooltip_def
      normaliseTooltip_def isNormal_def updateNormal_def Let_def initialProps_def cleanPosition_def
      positionOf_def parseAngleArg_def)

theorem update_shows_marker_witness:
  "update strictUtils 100 examplePanorama hiddenMarker (NewProperties tooltipOnly)
     = (None, snd (update strictUtils 100 examplePanorama hiddenMarker (NewProperties tooltipOnly)))
   \<and> c_visible tooltipOnly \<noteq> Some False
   \<and> \<not> m_visible hiddenMarker
   \<and> m_visible (snd (update strictUtils 100 examplePanorama hiddenMarker (NewProperties tooltipOnly)))"
proof -
  have 1: "update strictUtils 100 examplePanorama hiddenMarker (NewProperties tooltipOnly)
     = (None, snd (update strictUtils 100 examplePanorama hiddenMarker (NewProperties tooltipOnly)))"
    using update_tooltipOnly_succeeds by (metis prod.collapse)
  have 2: "c_visible tooltipOnly \<noteq> Some False" by (simp add: tooltipOnly_def emptyConfig_def)
  have 3: "\<not> m_visible hiddenMarker" by (simp add: hiddenMarker_def)
  show ?thesis using 1 2 3 update_shows_marker[OF 1 2] by simp
qed


text \<open>
  The claim as stated covers every update whose properties object does not set \<open>visible\<close>
  to \<open>false\<close>. When that object is the marker's own configuration object, \<open>update\<close> skips
  the block that assigns the flag: a hidden marker stays hidden.
\<close>

theorem update_own_config_counterexample:
  "fst (update strictUtils 100 examplePanorama hiddenMarker OwnConfig) = None
   \<and> c_visible (m_config hiddenMarker) \<noteq> Some False
   \<and> \<not> m_visible (snd (update strictUtils 100 examplePanorama hiddenMarker OwnConfig))"
  by (simp add: update_def mergeProperties_def emptyConfig_def hiddenMarker_def strictUtils_def
      normaliseTooltip_def isNormal_def updateNormal_def Let_def initialProps_def cleanPosition_def
      positionOf_def parseAngleArg_def setPosition_def)

subsection \<open>Properties of marker creation\<close>

text \<open>
  The constructor checks the position itself only under the guard
  \<open>properties.image || properties.html\<close>: a configuration whose \<open>image\<close> or \<open>html\<close> content
  is truthy and which lacks a position is rejected there, whatever the helpers do.
\<close>

lemma PSVMarker_guard:
  assumes "truthyString (c_image properties) \<or> truthyString (c_html properties)"
    and "lacksPosition properties"
  shows "PSVMarker U R prop properties = Inl (PSVError ''missing marker id'')
       \<or> PSVMarker U R prop properties = Inl (PSVError ''missing marker width/height'')
       \<or> PSVMarker U R prop properties
            = Inl (PSVError ''missing marker position, latitude/longitude or x/y'')"
  using assms by (simp add: PSVMarker_def)

text \<open>
  Every other configuration of a point or shape kind passes the guards and reaches
  \<open>cleanPosition\<close> through \<open>update\<close>, which hands the missing angle to \<open>parseAngle\<close>.
\<close>

lemma PSVMarker_square_strict:
  "PSVMarker strictUtils 100 examplePanorama squareWithoutPosition = Inl (PSVError ''unknown angle'')"
  by (simp add: squareWithoutPosition_def emptyConfig_def lacksPosition_def PSVMarker_def
      getType_def MARKER_TYPES_def update_def mergeProperties_def strictUtils_def
      deepmergeConfig_def override_def mergeTooltip_def normaliseTooltip_def isNormal_def isPoly_def
      isPolygon_def isPolyline_def updateSvg_def svgDef_def Let_def initialProps_def
      cleanPosition_def positionOf_def parseAngleArg_def)

lemma rejectsMissingAngle_error:
  "rejectsMissingAngle U \<Longrightarrow> parseAngleOther U a zc = Inl e \<Longrightarrow> \<exists>msg. e = PSVError msg"
  unfolding rejectsMissingAngle_def
  by (metis isPSVError.elims(2) sum.case(1))

lemma rejectsMissingAngle_None:
  "rejectsMissingAngle U \<Longrightarrow> \<exists>msg. parseAngleOther U None zc = Inl (PSVError msg)"
proof -
  assume r: "rejectsMissingAngle U"
  then have "case parseAngleOther U None zc of Inl e \<Rightarrow> isPSVError e | Inr r \<Rightarrow> False"
    unfolding rejectsMissingAngle_def by (metis (mono_tags, lifting) sum.case_eq_if)
  then obtain e where "parseAngleOther U None zc = Inl e" by (cases "parseAngleOther U None zc") auto
  then show ?thesis using rejectsMissingAngle_error[OF r] by blast
qed

lemma deepmergeConfig_empty: "deepmergeConfig emptyConfig properties = properties"
  by (simp add: deepmergeConfig_def emptyConfig_def override_def mergeTooltip_def
        split: option.splits)

lemma parseAngleArg_error:
  assumes "rejectsMissingAngle U" and "parseAngleArg U a zc = Inl e"
  shows "\<exists>msg. e = PSVError msg"
  using assms(2) rejectsMissingAngle_error[OF assms(1)]
  by (auto simp: parseAngleArg_def split: option.splits angle.splits)

lemma cleanPosition_lacks:
  assumes rejects: "rejectsMissingAngle U" and "lacksPosition c"
  shows "\<exists>msg. cleanPosition U prop (positionOf c) = Inl (PSVError msg)"
proof -
  have xy: "c_x c = None \<or> c_y c = None" and ll: "c_latitude c = None \<or> c_longitude c = None"
    using assms(2) by (auto simp: lacksPosition_def)
  show ?thesis
  proof (cases "parseAngleArg U (c_longitude c) False")
    case (Inl e)
    then obtain msg where "e = PSVError msg" using parseAngleArg_error[OF rejects] by blast
    then have "cleanPosition U prop (positionOf c) = Inl (PSVError msg)"
      using xy Inl by (cases "c_x c"; cases "c_y c") (simp_all add: cleanPosition_def positionOf_def)
    then show ?thesis by blast
  next
    case (Inr lo)
    then have "c_longitude c \<noteq> None"
      using rejectsMissingAngle_None[OF rejects, of False]
      by (cases "c_longitude c") (auto simp: parseAngleArg_def)
    then have "c_latitude c = None" using ll by auto
    then obtain msg where lat: "parseAngleArg U (c_latitude c) True = Inl (PSVError msg)"
      using rejectsMissingAngle_None[OF rejects, of True] by (auto simp: parseAngleArg_def)
    have "cleanPosition U prop (positionOf c) = Inl (PSVError msg)"
      using xy Inr lat by (cases "c_x c"; cases "c_y c") (simp_all add: cleanPosition_def positionOf_def)
    then show ?thesis by blast
  qed
qed

lemma getType_single:
  assumes "getType properties allowNone = Inr (Some t')" and "hasKey t properties"
  shows "t' = t"
proof -
  let ?found = "filter (\<lambda>t. hasKey t properties) MARKER_TYPES"
  have mem: "t \<in> set ?found" using assms(2) by (cases t) (simp_all add: MARKER_TYPES_def)
  have len: "\<not> length ?found > 1" and hd: "(case ?found of [] \<Rightarrow> None | a # _ \<Rightarrow> Some a) = Some t'"
    using assms(1) by (auto simp: getType_def Let_def split: if_splits)
  from len hd obtain "?found = [t']" by (cases ?found) (auto split: list.splits)
  then show ?thesis using mem by simp
qed

lemma getType_error:
  "getType properties allowNone = Inl e \<Longrightarrow> \<exists>msg. e = PSVError msg"
  by (auto simp: getType_def Let_def split: if_splits)

lemma getType_allowNone:
  "getType properties False = Inr r \<Longrightarrow> getType properties True = Inr r"
  by (auto simp: getType_def Let_def split: if_splits)

text \<open>
  C5. Every marker configuration that carries the content of a point or shape kind (image,
  html, square, rect, circle, ellipse, path) and has neither both pixel coordinates nor
  both spherical coordinates fails to create a marker, with a \<open>PSVError\<close>: from the
  constructor's own checks, from \<open>getType\<close>, or from \<open>parseAngle\<close> on the missing angle. The
  helpers are those of the spec: \<open>parseAngle\<close> rejects a missing angle, and merging the
  properties into the empty configuration of a new marker yields these properties.
\<close>

theorem PSVMarker_position_required:
  assumes kind: "hasKey t properties"
    and shape: "t \<in> {Image, Html, Square, Rect, Circle, Ellipse, Path}"
    and lacks: "lacksPosition properties"
    and rejects: "rejectsMissingAngle U"
    and merge: "deepmerge U emptyConfig properties = properties"
  shows "\<exists>msg. PSVMarker U R prop properties = Inl (PSVError msg)"
proof (cases "getType properties False")
  case (Inl e)
  then show ?thesis using getType_error[OF Inl] by (auto simp: PSVMarker_def)
next
  case (Inr r)
  then obtain t' where r: "r = Some t'" using getType_required[of properties] by (cases r) auto
  have t': "t' = t" using getType_single[OF Inr[unfolded r] kind] .
  have gT: "getType properties True = Inr (Some t)"
    using getType_allowNone[OF Inr] r t' by simp
  let ?m0 = "\<lparr> m_id = (case c_id properties of Some i \<Rightarrow> i | None \<Rightarrow> []),
                m_type = t, m_visible = True, m_config = emptyConfig, m_props = initialProps \<rparr>"
  let ?c = "normaliseTooltip properties"
  have lc: "lacksPosition ?c"
    using lacks by (auto simp: lacksPosition_def normaliseTooltip_def split: option.splits tooltip_config.splits)
  obtain msg where cp: "cleanPosition U prop (positionOf ?c) = Inl (PSVError msg)"
    using cleanPosition_lacks[OF rejects lc] by blast
  have keep: "c_rect ?c = c_rect properties" "c_ellipse ?c = c_ellipse properties"
    by (auto simp: normaliseTooltip_def split: option.splits tooltip_config.splits)
  have "fst (update U R prop ?m0 (NewProperties properties)) = Some (PSVError msg)"
  proof (cases "t = Image \<or> t = Html")
    case True
    then show ?thesis
      using gT merge cp
      by (auto simp: update_def mergeProperties_def isNormal_def updateNormal_def Let_def)
  next
    case False
    then have svg: "t = Square \<or> t = Rect \<or> t = Circle \<or> t = Ellipse \<or> t = Path"
      using shape by auto
    have "\<exists>d. svgDef t ?c (def initialProps) = Inr d"
      using svg kind keep
      by (auto simp: svgDef_def split: option.splits size_config.splits)
    then obtain d where d: "svgDef t ?c (def initialProps) = Inr d" by blast
    show ?thesis
      using gT merge cp d svg
      by (auto simp: update_def mergeProperties_def isNormal_def isPoly_def isPolygon_def
            isPolyline_def updateSvg_def Let_def initialProps_def)
  qed
  then show ?thesis
    using Inr r t'
    by (auto simp: PSVMarker_def split: prod.splits option.splits)
qed

theorem PSVMarker_position_required_witness:
  "hasKey Square squareWithoutPosition
   \<and> lacksPosition squareWithoutPosition
   \<and> rejectsMissingAngle strictUtils
   \<and> PSVMarker strictUtils 100 examplePanorama squareWithoutPosition
        = Inl (PSVError ''unknown angle'')"
proof -
  have 1: "hasKey Square squareWithoutPosition"
    by (simp add: squareWithoutPosition_def emptyConfig_def)
  have 2: "Square \<in> {Image, Html, Square, Rect, Circle, Ellipse, Path}" by simp
  have 3: "lacksPosition squareWithoutPosition"
    by (simp add: squareWithoutPosition_def emptyConfig_def lacksPosition_def)
  have 4: "rejectsMissingAngle strictUtils"
    by (simp add: rejectsMissingAngle_def strictUtils_def)
  have 6: "deepmerge strictUtils emptyConfig squareWithoutPosition = squareWithoutPosition"
    by (simp add: strictUtils_def deepmergeConfig_empty)
  show ?thesis
    using 1 3 4 PSVMarker_position_required[OF 1 2 3 4 6, of 100 examplePanorama]
    by (simp add: PSVMarker_square_strict)
qed

subsection \<open>Properties of the marker pass\<close>

lemma neighbourPairs_invisible:
  assumes "\<forall>nb \<in> set nbs. \<exists>p. nb = Some p \<and> \<not> snd p"
  shows "neighbourPairs pos i nbs = Inr []"
  using assms by (induction nbs) auto

lemma nthOpt_mem: "k < length ps \<Longrightarrow> \<exists>p. nthOpt ps k = Some p \<and> p \<in> set ps"
  by (simp add: nthOpt_def)

lemma neighbours_in_range:
  assumes "i < length ps"
  shows "\<forall>nb \<in> set (neighbours ps i). \<exists>p. nb = Some p \<and> p \<in> set ps"
proof -
  have a: "\<exists>p. nthOpt ps (length ps - 1) = Some p \<and> p \<in> set ps"
    using assms by (intro nthOpt_mem) auto
  have b: "\<exists>p. nthOpt ps (i - 1) = Some p \<and> p \<in> set ps"
    using assms by (intro nthOpt_mem) auto
  have c: "\<exists>p. nthOpt ps 0 = Some p \<and> p \<in> set ps"
    using assms by (intro nthOpt_mem) auto
  have d: "\<exists>p. nthOpt ps (i + 1) = Some p \<and> p \<in> set ps" if "i \<noteq> length ps - 1"
    using assms that by (intro nthOpt_mem) auto
  show ?thesis
    using a b c d by (cases "i = 0"; cases "i = length ps - 1") (simp_all add: neighbours_def Let_def)
qed

lemma concatE_all_empty:
  assumes "\<forall>r \<in> set rs. r = Inr []"
  shows "concatE rs = Inr []"
  using assms by (induction rs) auto

lemma toBeComputed_invisible:
  assumes "\<forall>p \<in> set ps. \<not> snd p"
  shows "toBeComputed ps = Inr []"
proof -
  have "neighbourPairs (ps ! i) i (neighbours ps i) = Inr []" if "i < length ps" for i
    using neighbours_in_range[OF that] assms
    by (intro neighbourPairs_invisible) fastforce
  then show ?thesis
    unfolding toBeComputed_def by (intro concatE_all_empty) auto
qed

text \<open>
  C7. For a polygon or polyline marker whose 3D vertices all have a non-positive dot
  product with the camera direction, no intermediary point is requested
  (\<open>toBeComputed\<close> is empty), no position is returned, and the pass reports the marker not
  visible without throwing and leaves it unchanged.
\<close>

theorem poly_all_invisible:
  assumes "isPoly m"
    and "positions3D (m_props m) = Some vectors"
    and "\<forall>vector \<in> set vectors. dot vector (direction env) \<le> 0"
  shows "toBeComputed (map (\<lambda>vector. (vector, dot vector (direction env) > 0)) vectors) = Inr []
       \<and> getPolyPositions env m = Inr []
       \<and> renderMarker env m = Inr (False, m)"
proof -
  let ?ps = "map (\<lambda>vector. (vector, dot vector (direction env) > 0)) vectors"
  have inv: "\<forall>p \<in> set ?ps. \<not> snd p" using assms(3) by auto
  have 1: "toBeComputed ?ps = Inr []" by (rule toBeComputed_invisible[OF inv])
  have "filter snd ?ps = []" using inv by (simp add: filter_empty_conv)
  then have 2: "getPolyPositions env m = Inr []"
    using assms(2) 1 by (simp add: getPolyPositions_def insertIntermediaries_def)
  have 3: "renderMarker env m = Inr (False, m)"
    using assms(1) 2 by (simp add: renderMarker_def)
  show ?thesis using 1 2 3 by simp
qed

theorem poly_all_invisible_witness:
  "isPoly behindCamera
   \<and> positions3D (m_props behindCamera)
        = Some [\<lparr> vx = 0, vy = 0, vz = - 100 \<rparr>, \<lparr> vx = 60, vy = 0, vz = - 80 \<rparr>,
                \<lparr> vx = 0, vy = 100, vz = 0 \<rparr>]
   \<and> dot \<lparr> vx = 0, vy = 0, vz = - 100 \<rparr> (direction exampleEnv) \<le> 0
   \<and> dot \<lparr> vx = 60, vy = 0, vz = - 80 \<rparr> (direction exampleEnv) \<le> 0
   \<and> dot \<lparr> vx = 0, vy = 100, vz = 0 \<rparr> (direction exampleEnv) \<le> 0
   \<and> getPolyPositions exampleEnv behindCamera = Inr []
   \<and> renderMarker exampleEnv behindCamera = Inr (False, behindCamera)"
proof -
  have 1: "isPoly behindCamera"
    by (simp add: behindCamera_def isPoly_def isPolygon_def)
  have 2: "positions3D (m_props behindCamera)
        = Some [\<lparr> vx = 0, vy = 0, vz = - 100 \<rparr>, \<lparr> vx = 60, vy = 0, vz = - 80 \<rparr>,
                \<lparr> vx = 0, vy = 100, vz = 0 \<rparr>]"
    by (simp add: behindCamera_def initialProps_def)
  have 3: "\<forall>vector \<in> set [\<lparr> vx = 0, vy = 0, vz = - 100 \<rparr>, \<lparr> vx = 60, vy = 0, vz = - 80 \<rparr>,
                          \<lparr> vx = 0, vy = 100, vz = 0 \<rparr>].
          dot vector (direction exampleEnv) \<le> 0"
    by (simp add: dot_def exampleEnv_def)
  show ?thesis
    using 1 2 poly_all_invisible[OF 1 2 3] by (simp add: dot_def exampleEnv_def)
qed

subsection \<open>Properties of panorama loading\<close>

text \<open>
  C8. While the promise of a load is pending, \<open>setPanorama\<close> throws ``Loading already in
  progress'' and leaves the viewer as it was, so that no further load is requested. Once an
  event has settled the pending chain, \<open>loadingPromise\<close> is \<open>null\<close> again and a call of
  \<open>setPanorama\<close> is accepted: it does not throw, requests the new texture and leaves a
  pending promise.
\<close>

theorem setPanorama_while_loading:
  assumes "loadingPromise (v_prop v) = Some stage"
  shows "setPanorama U v path positionArg transitionArg
           = (Some (PSVError ''Loading already in progress''), v)
       \<and> (settles stage ev \<longrightarrow>
            loadingPromise (v_prop (loadEvent U v ev)) = None
          \<and> fst (setPanorama U (loadEvent U v ev) path' PositionUndefined transitionArg') = None
          \<and> requested (snd (setPanorama U (loadEvent U v ev) path' PositionUndefined transitionArg'))
               = requested (loadEvent U v ev) @ [path']
          \<and> loadingPromise (v_prop (snd (setPanorama U (loadEvent U v ev) path' PositionUndefined
               transitionArg'))) \<noteq> None)"
proof -
  have refused: "setPanorama U v path positionArg transitionArg
           = (Some (PSVError ''Loading already in progress''), v)"
    using assms by (simp add: setPanorama_def)
  have idle: "loadingPromise (v_prop (loadEvent U v ev)) = None" if "settles stage ev"
    using assms that
    by (auto simp: settles_def loadEvent_def doneLoading_def Let_def
          split: loading.splits load_event.splits bool.splits option.splits)
  have accepted: "fst (setPanorama U (loadEvent U v ev) path' PositionUndefined transitionArg') = None
         \<and> requested (snd (setPanorama U (loadEvent U v ev) path' PositionUndefined transitionArg'))
             = requested (loadEvent U v ev) @ [path']
         \<and> loadingPromise (v_prop (snd (setPanorama U (loadEvent U v ev) path' PositionUndefined
               transitionArg'))) \<noteq> None" if "settles stage ev"
    using idle[OF that] by (simp add: setPanorama_def Let_def)
  show ?thesis using refused idle accepted by blast
qed

lemma loadingViewer_pending: "loadingPromise (v_prop loadingViewer) = Some (Loading None False)"
  by (simp add: loadingViewer_def setPanorama_def idleViewer_def Let_def)

theorem setPanorama_while_loading_witness:
  "fst (setPanorama strictUtils idleViewer ''a.jpg'' PositionUndefined False) = None
   \<and> loadingPromise (v_prop loadingViewer) = Some (Loading None False)
   \<and> setPanorama strictUtils loadingViewer ''b.jpg'' PositionUndefined False
        = (Some (PSVError ''Loading already in progress''), loadingViewer)
   \<and> settles (Loading None False) (TextureLoaded ''a.jpg'')
   \<and> loadingPromise (v_prop (loadEvent strictUtils loadingViewer (TextureLoaded ''a.jpg''))) = None
   \<and> fst (setPanorama strictUtils (loadEvent strictUtils loadingViewer (TextureLoaded ''a.jpg''))
          ''b.jpg'' PositionUndefined False) = None"
proof -
  have 0: "fst (setPanorama strictUtils idleViewer ''a.jpg'' PositionUndefined False) = None"
    by (simp add: setPanorama_def idleViewer_def Let_def)
  have 1: "loadingPromise (v_prop loadingViewer) = Some (Loading None False)"
    by (rule loadingViewer_pending)
  have 2: "settles (Loading None False) (TextureLoaded ''a.jpg'')"
    by (simp add: settles_def)
  show ?thesis
    using 0 1 2
      setPanorama_while_loading[OF 1, of strictUtils "''b.jpg''" PositionUndefined False
        "TextureLoaded ''a.jpg''" "''b.jpg''" False]
    by simp
qed

end
